theory Spec2Isabelle
  imports Complex_Main "HOL-Library.Signed_Division"
begin

section \<open>Machine integers of mesh.hh\<close>

text \<open>
  The C++ types \<^verbatim>\<open>unsigned\<close> (32 bit), \<^verbatim>\<open>int\<close> (32 bit, two's
  complement) and \<^verbatim>\<open>size_t\<close> (64 bit) are held as \<open>int\<close> and \<open>nat\<close>; every
  conversion of the source that can wrap is written out with one of the three functions
  below. \<open>u32\<close> is the conversion to \<^verbatim>\<open>unsigned\<close>, \<open>s32\<close> the conversion to
  \<^verbatim>\<open>int\<close> and \<open>u64\<close> the conversion to \<^verbatim>\<open>size_t\<close>.
\<close>

definition u32 :: "int \<Rightarrow> int" where
  "u32 x = x mod 2 ^ 32"

definition s32 :: "int \<Rightarrow> int" where
  "s32 x = (x + 2 ^ 31) mod 2 ^ 32 - 2 ^ 31"

definition u64 :: "int \<Rightarrow> nat" where
  "u64 x = nat (x mod 2 ^ 64)"

section \<open>Errors and loops\<close>

text \<open>
  \<open>IncompatibleData\<close> is the \<^verbatim>\<open>std::runtime_error\<close> of the element-wise operators,
  \<open>NonExistentGrid\<close> the one of \<^verbatim>\<open>get_grid\<close>, \<open>BothOffsetAndCenter\<close> the one of the
  layout constructor, \<open>BoundingBoxError\<close> the report of a degenerate bounding box.
  \<open>OutOfBounds\<close> stands for an access outside an array or vector and \<open>BadShift\<close> for a
  shift by 32 bits or more, where C++ leaves the behaviour undefined.
\<close>

datatype error =
    IncompatibleData
  | NonExistentGrid
  | BothOffsetAndCenter
  | MissingKey
  | BoundingBoxError int int int int int int
  | OutOfBounds
  | BadShift

text \<open>
  A method that changes its object returns the exception it raised, if any, and the object
  as it is left behind. A \<^verbatim>\<open>for\<close> loop runs its body over the values of the loop
  variable in order and stops at the first exception.
\<close>

definition and_then :: "error option \<times> 's \<Rightarrow> ('s \<Rightarrow> error option \<times> 's) \<Rightarrow> error option \<times> 's" where
  "and_then r f = (case r of (None, s) \<Rightarrow> f s | (Some e, s) \<Rightarrow> (Some e, s))"

primrec for_each :: "'i list \<Rightarrow> ('i \<Rightarrow> 's \<Rightarrow> error option \<times> 's) \<Rightarrow> 's \<Rightarrow> error option \<times> 's" where
  "for_each [] body s = (None, s)"
| "for_each (x # xs) body s = and_then (body x s) (for_each xs body)"

section \<open>Meshvar: the rectangular mesh\<close>

record 'a Meshvar =
  m_nx :: nat
  m_ny :: nat
  m_nz :: nat
  m_offx :: int
  m_offy :: int
  m_offz :: int
  m_pdata :: "'a list"

text \<open>The product \<^verbatim>\<open>m_nx*m_ny*m_nz\<close>, computed in \<^verbatim>\<open>size_t\<close>.\<close>

definition msize :: "('a, 'b) Meshvar_scheme \<Rightarrow> nat" where
  "msize m = (m_nx m * m_ny m * m_nz m) mod 2 ^ 64"

text \<open>
  The constructor allocates \<^verbatim>\<open>new real_t[m_nx*m_ny*m_nz]\<close> and leaves the cells
  uninitialised: \<open>junk\<close> gives the value found in each fresh cell.
\<close>

definition Meshvar_new :: "nat \<Rightarrow> nat \<Rightarrow> nat \<Rightarrow> int \<Rightarrow> int \<Rightarrow> int \<Rightarrow> (nat \<Rightarrow> 'a) \<Rightarrow> 'a Meshvar" where
  "Meshvar_new nx ny nz offx offy offz junk =
     \<lparr> m_nx = nx, m_ny = ny, m_nz = nz, m_offx = offx, m_offy = offy, m_offz = offz,
       m_pdata = map junk [0..<(nx * ny * nz) mod 2 ^ 64] \<rparr>"

definition set_cell :: "nat \<Rightarrow> 'a \<Rightarrow> ('a, 'b) Meshvar_scheme \<Rightarrow> error option \<times> ('a, 'b) Meshvar_scheme" where
  "set_cell i v m =
     (if i < length (m_pdata m) then (None, m\<lparr>m_pdata := (m_pdata m)[i := v]\<rparr>)
      else (Some OutOfBounds, m))"

text \<open>\<^verbatim>\<open>zero\<close>: \<^verbatim>\<open>for( size_t i=0; i<m_nx*m_ny*m_nz; ++i ) m_pdata[i] = 0.0;\<close>\<close>

definition zero_mesh :: "('a::zero, 'b) Meshvar_scheme \<Rightarrow> error option \<times> ('a, 'b) Meshvar_scheme" where
  "zero_mesh m = for_each [0..<msize m] (\<lambda>i. set_cell i 0) m"

subsection \<open>Element-wise operators with another mesh\<close>

datatype binop = MulAssign | DivAssign | AddAssign | SubAssign

fun apply_binop :: "binop \<Rightarrow> 'a::{plus,minus,times,inverse} \<Rightarrow> 'a \<Rightarrow> 'a" where
  "apply_binop MulAssign x y = x * y"
| "apply_binop DivAssign x y = x / y"
| "apply_binop AddAssign x y = x + y"
| "apply_binop SubAssign x y = x - y"

text \<open>One pass of the loop body \<^verbatim>\<open>m_pdata[i] op= v.m_pdata[i]\<close>.\<close>

definition elem_assign ::
  "binop \<Rightarrow> ('a::{plus,minus,times,inverse}, 'c) Meshvar_scheme \<Rightarrow> nat \<Rightarrow>
   ('a, 'b) Meshvar_scheme \<Rightarrow> error option \<times> ('a, 'b) Meshvar_scheme" where
  "elem_assign bop v i m =
     (if i < length (m_pdata m) \<and> i < length (m_pdata v)
      then (None, m\<lparr>m_pdata := (m_pdata m)[i := apply_binop bop (m_pdata m ! i) (m_pdata v ! i)]\<rparr>)
      else (Some OutOfBounds, m))"

text \<open>
  \<^verbatim>\<open>operator*=\<close>, \<^verbatim>\<open>operator/=\<close>, \<^verbatim>\<open>operator+=\<close> and \<^verbatim>\<open>operator-=\<close> with a
  mesh argument differ in the arithmetic operation only.
\<close>

definition meshvar_assign_op ::
  "binop \<Rightarrow> ('a::{plus,minus,times,inverse}, 'b) Meshvar_scheme \<Rightarrow> ('a, 'c) Meshvar_scheme \<Rightarrow>
   error option \<times> ('a, 'b) Meshvar_scheme" where
  "meshvar_assign_op bop m v =
     (if msize v \<noteq> msize m then (Some IncompatibleData, m)
      else for_each [0..<msize m] (elem_assign bop v) m)"

text \<open>The class invariant: the buffer holds one cell per index triple.\<close>

definition allocated :: "('a, 'b) Meshvar_scheme \<Rightarrow> bool" where
  "allocated m \<longleftrightarrow>
     m_nx m * m_ny m * m_nz m < 2 ^ 64 \<and> length (m_pdata m) = m_nx m * m_ny m * m_nz m"


section \<open>MeshvarBnd: a mesh with ghost cells\<close>

record 'a MeshvarBnd = "'a Meshvar" +
  m_nbnd :: int

text \<open>
  The most general constructor,
  \<^verbatim>\<open>MeshvarBnd( int nbnd, size_t nx, size_t ny, size_t nz, size_t xoff, size_t yoff, size_t zoff )\<close>,
  which hands \<^verbatim>\<open>nx+2*nbnd\<close> (a \<^verbatim>\<open>size_t\<close>) and the offsets (as \<^verbatim>\<open>int\<close>) to
  the constructor of \<^verbatim>\<open>Meshvar\<close>.
\<close>

definition MeshvarBnd_new ::
  "int \<Rightarrow> nat \<Rightarrow> nat \<Rightarrow> nat \<Rightarrow> nat \<Rightarrow> nat \<Rightarrow> nat \<Rightarrow> (nat \<Rightarrow> 'a) \<Rightarrow> 'a MeshvarBnd" where
  "MeshvarBnd_new nbnd nx ny nz xoff yoff zoff junk =
     Meshvar.extend
       (Meshvar_new (u64 (int nx + 2 * nbnd)) (u64 (int ny + 2 * nbnd)) (u64 (int nz + 2 * nbnd))
          (s32 (int xoff)) (s32 (int yoff)) (s32 (int zoff)) junk)
       (MeshvarBnd.fields nbnd)"

text \<open>\<^verbatim>\<open>MeshvarBnd::size\<close>: the extent without the ghost cells, a \<^verbatim>\<open>size_t\<close>.\<close>

definition bnd_size :: "('a, 'b) MeshvarBnd_scheme \<Rightarrow> nat \<Rightarrow> nat" where
  "bnd_size m d =
     (if d = 0 then u64 (int (m_nx m) - 2 * m_nbnd m)
      else if d = 1 then u64 (int (m_ny m) - 2 * m_nbnd m)
      else u64 (int (m_nz m) - 2 * m_nbnd m))"

text \<open>
  \<^verbatim>\<open>MeshvarBnd::operator()\<close>: the position in the buffer of the cell with logical
  index \<open>(ix, iy, iz)\<close>, where \<^verbatim>\<open>size_t iix(ix+m_nbnd)\<close> converts a negative sum to a huge
  \<^verbatim>\<open>size_t\<close>. Reading or writing a position outside the buffer is reported as
  \<open>OutOfBounds\<close>.
\<close>

definition bnd_index :: "('a, 'b) MeshvarBnd_scheme \<Rightarrow> int \<Rightarrow> int \<Rightarrow> int \<Rightarrow> nat" where
  "bnd_index m ix iy iz =
     (let iix = u64 (ix + m_nbnd m); iiy = u64 (iy + m_nbnd m); iiz = u64 (iz + m_nbnd m)
      in ((iix * m_ny m + iiy) * m_nz m + iiz) mod 2 ^ 64)"

definition bnd_get :: "('a, 'b) MeshvarBnd_scheme \<Rightarrow> int \<Rightarrow> int \<Rightarrow> int \<Rightarrow> error + 'a" where
  "bnd_get m ix iy iz =
     (if bnd_index m ix iy iz < length (m_pdata m) then Inr (m_pdata m ! bnd_index m ix iy iz)
      else Inl OutOfBounds)"

definition bnd_set ::
  "int \<Rightarrow> int \<Rightarrow> int \<Rightarrow> 'a \<Rightarrow> ('a, 'b) MeshvarBnd_scheme \<Rightarrow> error option \<times> ('a, 'b) MeshvarBnd_scheme" where
  "bnd_set ix iy iz v m = set_cell (bnd_index m ix iy iz) v m"

text \<open>
  \<^verbatim>\<open>zero_bnd\<close>: three sweeps, one per axis; each runs over the full ghosted range of the
  two other axes and writes zero to the low and the high slab of its own axis.
\<close>

definition zero_bnd :: "('a::zero, 'b) MeshvarBnd_scheme \<Rightarrow> error option \<times> ('a, 'b) MeshvarBnd_scheme" where
  "zero_bnd m =
     (let nx = s32 (int (bnd_size m 0));
          ny = s32 (int (bnd_size m 1));
          nz = s32 (int (bnd_size m 2));
          nb = m_nbnd m
      in and_then (and_then
           (for_each [- nb .. ny + nb - 1] (\<lambda>j.
              for_each [- nb .. nz + nb - 1] (\<lambda>k.
                for_each [- nb .. -1] (\<lambda>i s.
                  and_then (bnd_set i j k 0 s) (bnd_set (nx - 1 - i) j k 0)))) m)
           (for_each [- nb .. nx + nb - 1] (\<lambda>i.
              for_each [- nb .. nz + nb - 1] (\<lambda>k.
                for_each [- nb .. -1] (\<lambda>j s.
                  and_then (bnd_set i j k 0 s) (bnd_set i (ny - j - 1) k 0))))))
           (for_each [- nb .. nx + nb - 1] (\<lambda>i.
              for_each [- nb .. ny + nb - 1] (\<lambda>j.
                for_each [- nb .. -1] (\<lambda>k s.
                  and_then (bnd_set i j k 0 s) (bnd_set i j (nz - k - 1) 0))))))"

section \<open>GridHierarchy: the nested grid collection\<close>

text \<open>
  \<open>gh_nbnd\<close> is the field \<^verbatim>\<open>m_nbnd\<close> of \<^verbatim>\<open>GridHierarchy\<close> (a \<^verbatim>\<open>size_t\<close>; the
  name \<open>m_nbnd\<close> is taken by the field of \<^verbatim>\<open>MeshvarBnd\<close>). The vectors
  \<open>m_xoffabs\<close>, \<open>m_yoffabs\<close> and \<open>m_zoffabs\<close> hold \<^verbatim>\<open>int\<close>s.
\<close>

record 'a GridHierarchy =
  gh_nbnd :: nat
  m_levelmin :: nat
  m_pgrids :: "'a MeshvarBnd list"
  m_xoffabs :: "int list"
  m_yoffabs :: "int list"
  m_zoffabs :: "int list"

text \<open>\<^verbatim>\<open>levelmax\<close> returns \<^verbatim>\<open>m_pgrids.size()-1\<close> as an \<^verbatim>\<open>unsigned\<close>.\<close>

definition levelmax :: "'a GridHierarchy \<Rightarrow> nat" where
  "levelmax gh = nat (u32 (int (length (m_pgrids gh)) - 1))"

text \<open>
  \<^verbatim>\<open>1<<i\<close> is a shift of the \<^verbatim>\<open>int\<close> 1; the result is assigned to an
  \<^verbatim>\<open>unsigned\<close> in \<^verbatim>\<open>find_new_levelmin\<close> and divided into \<open>1.0\<close> in
  \<^verbatim>\<open>cell_pos\<close>.
\<close>

definition shl1 :: "nat \<Rightarrow> int" where
  "shl1 i = s32 (2 ^ i)"

text \<open>One pass of the loop of \<^verbatim>\<open>GridHierarchy::find_new_levelmin\<close>.\<close>

definition fnl_step :: "nat \<Rightarrow> 'a GridHierarchy \<Rightarrow> error option \<times> 'a GridHierarchy" where
  "fnl_step i gh =
     (if 32 \<le> i then (Some BadShift, gh)
      else if \<not> i < length (m_pgrids gh) then (Some OutOfBounds, gh)
      else if int (bnd_size (m_pgrids gh ! i) 0) = u32 (shl1 i) \<and>
              int (bnd_size (m_pgrids gh ! i) 1) = u32 (shl1 i) \<and>
              int (bnd_size (m_pgrids gh ! i) 2) = u32 (shl1 i)
           then (None, gh\<lparr>m_levelmin := i\<rparr>)
           else (None, gh))"

definition find_new_levelmin :: "'a GridHierarchy \<Rightarrow> error option \<times> 'a GridHierarchy" where
  "find_new_levelmin gh = for_each [0..<Suc (levelmax gh)] fnl_step gh"

text \<open>
  \<^verbatim>\<open>cell_pos\<close> returns the three coordinates and whether the line
  \<^verbatim>\<open>Cell seems outside domain!\<close> was written to \<^verbatim>\<open>std::cerr\<close>. The
  \<^verbatim>\<open>double\<close>s are modelled as reals: for a level below 31 and 32-bit offsets and
  indices every intermediate value is a dyadic rational with fewer than 53 significant bits,
  so the floating-point operations of the source are exact.
\<close>

definition cell_pos ::
  "'a GridHierarchy \<Rightarrow> nat \<Rightarrow> int \<Rightarrow> int \<Rightarrow> int \<Rightarrow> error + ((real \<times> real \<times> real) \<times> bool)" where
  "cell_pos gh ilevel i j k =
     (if 32 \<le> ilevel then Inl BadShift
      else if \<not> (ilevel < length (m_xoffabs gh) \<and> ilevel < length (m_yoffabs gh)
                 \<and> ilevel < length (m_zoffabs gh)) then Inl OutOfBounds
      else
        let h = 1 / real_of_int (shl1 ilevel);
            p0 = h * (real_of_int (m_xoffabs gh ! ilevel) + real_of_int i + 0.5);
            p1 = h * (real_of_int (m_yoffabs gh ! ilevel) + real_of_int j + 0.5);
            p2 = h * (real_of_int (m_zoffabs gh ! ilevel) + real_of_int k + 0.5)
        in Inr ((p0, p1, p2), p0 \<ge> 1 \<or> p1 \<ge> 1 \<or> p2 \<ge> 1))"

text \<open>
  \<^verbatim>\<open>add_patch\<close>: the new grid is allocated and zeroed; the absolute offset
  \<^verbatim>\<open>2*(m_xoffabs.back() + xoff)\<close> is computed in \<^verbatim>\<open>unsigned\<close> and stored as an
  \<^verbatim>\<open>int\<close>. \<^verbatim>\<open>back()\<close> of an empty vector is reported as \<open>OutOfBounds\<close>.
\<close>

definition add_patch ::
  "nat \<Rightarrow> nat \<Rightarrow> nat \<Rightarrow> nat \<Rightarrow> nat \<Rightarrow> nat \<Rightarrow> (nat \<Rightarrow> 'a) \<Rightarrow> 'a::zero GridHierarchy \<Rightarrow>
   error option \<times> 'a GridHierarchy" where
  "add_patch xoff yoff zoff nx ny nz junk gh =
     (case zero_mesh (MeshvarBnd_new (s32 (int (gh_nbnd gh))) nx ny nz xoff yoff zoff junk) of
        (Some e, _) \<Rightarrow> (Some e, gh)
      | (None, g) \<Rightarrow>
          if m_xoffabs gh = [] \<or> m_yoffabs gh = [] \<or> m_zoffabs gh = []
          then (Some OutOfBounds, gh\<lparr>m_pgrids := m_pgrids gh @ [g]\<rparr>)
          else (None, gh\<lparr>
                 m_pgrids := m_pgrids gh @ [g],
                 m_xoffabs := m_xoffabs gh @ [s32 (u32 (2 * u32 (last (m_xoffabs gh) + int xoff)))],
                 m_yoffabs := m_yoffabs gh @ [s32 (u32 (2 * u32 (last (m_yoffabs gh) + int yoff)))],
                 m_zoffabs := m_zoffabs gh @ [s32 (u32 (2 * u32 (last (m_zoffabs gh) + int zoff)))]\<rparr>))"

text \<open>
  The innermost statement of the copy loop of \<^verbatim>\<open>cut_patch\<close>:
  \<^verbatim>\<open>(*mnew)(i,j,k) = (*m_pgrids[ilevel])(i+dx,j+dy,k+dz)\<close>. The sums are
  \<^verbatim>\<open>unsigned\<close> and are converted to the \<^verbatim>\<open>int\<close> parameters of
  \<^verbatim>\<open>operator()\<close>.
\<close>

definition copy_cell ::
  "'a MeshvarBnd \<Rightarrow> int \<Rightarrow> int \<Rightarrow> int \<Rightarrow> nat \<Rightarrow> nat \<Rightarrow> nat \<Rightarrow> 'a MeshvarBnd \<Rightarrow>
   error option \<times> 'a MeshvarBnd" where
  "copy_cell old dx dy dz i j k mnew =
     (case bnd_get old (s32 (u32 (int i + dx))) (s32 (u32 (int j + dy))) (s32 (u32 (int k + dz))) of
        Inl e \<Rightarrow> (Some e, mnew)
      | Inr v \<Rightarrow> bnd_set (s32 (int i)) (s32 (int j)) (s32 (int k)) v mnew)"

text \<open>The per-axis delta \<^verbatim>\<open>dx = xoff-m_xoffabs[ilevel]\<close>, an \<^verbatim>\<open>unsigned\<close>.\<close>

definition cut_delta :: "nat \<Rightarrow> int \<Rightarrow> int" where
  "cut_delta xoff offabs = u32 (int xoff - offabs)"

text \<open>\<^verbatim>\<open>dxtop = m_pgrids[ilevel]->offset(0)+dx/2\<close>, an \<^verbatim>\<open>unsigned\<close>.\<close>

definition cut_top :: "int \<Rightarrow> int \<Rightarrow> int" where
  "cut_top off d = u32 (off + d div 2)"

text \<open>\<^verbatim>\<open>m_xoffabs[ilevel] += dx\<close>, on an \<^verbatim>\<open>int\<close>.\<close>

definition cut_abs :: "int \<Rightarrow> int \<Rightarrow> int" where
  "cut_abs offabs d = s32 (u32 (offabs + d))"

text \<open>\<^verbatim>\<open>m_pgrids[ilevel+1]->offset(0) -= dx\<close>, on an \<^verbatim>\<open>int\<close>.\<close>

definition cut_fine :: "int \<Rightarrow> int \<Rightarrow> int" where
  "cut_fine off d = s32 (u32 (off - d))"

definition cut_patch ::
  "nat \<Rightarrow> nat \<Rightarrow> nat \<Rightarrow> nat \<Rightarrow> nat \<Rightarrow> nat \<Rightarrow> nat \<Rightarrow> (nat \<Rightarrow> 'a) \<Rightarrow> 'a GridHierarchy \<Rightarrow>
   error option \<times> 'a GridHierarchy" where
  "cut_patch ilevel xoff yoff zoff nx ny nz junk gh =
     (if \<not> (ilevel < length (m_pgrids gh) \<and> ilevel < length (m_xoffabs gh)
            \<and> ilevel < length (m_yoffabs gh) \<and> ilevel < length (m_zoffabs gh))
      then (Some OutOfBounds, gh)
      else
        let dx = cut_delta xoff (m_xoffabs gh ! ilevel);
            dy = cut_delta yoff (m_yoffabs gh ! ilevel);
            dz = cut_delta zoff (m_zoffabs gh ! ilevel);
            old = m_pgrids gh ! ilevel;
            dxtop = cut_top (m_offx old) dx;
            dytop = cut_top (m_offy old) dy;
            dztop = cut_top (m_offz old) dz;
            mnew = MeshvarBnd_new (s32 (int (gh_nbnd gh))) nx ny nz
                     (nat dxtop) (nat dytop) (nat dztop) junk
        in case for_each [0..<nx] (\<lambda>i.
                  for_each [0..<ny] (\<lambda>j.
                    for_each [0..<nz] (\<lambda>k. copy_cell old dx dy dz i j k))) mnew of
             (Some e, _) \<Rightarrow> (Some e, gh)
           | (None, mnew') \<Rightarrow>
               let gh1 = gh\<lparr>
                     m_pgrids := (m_pgrids gh)[ilevel := mnew'],
                     m_xoffabs := (m_xoffabs gh)[ilevel := cut_abs (m_xoffabs gh ! ilevel) dx],
                     m_yoffabs := (m_yoffabs gh)[ilevel := cut_abs (m_yoffabs gh ! ilevel) dy],
                     m_zoffabs := (m_zoffabs gh)[ilevel := cut_abs (m_zoffabs gh ! ilevel) dz]\<rparr>
               in if ilevel < levelmax gh1
                  then let fine = m_pgrids gh1 ! (ilevel + 1);
                           fine' = fine\<lparr>m_offx := cut_fine (m_offx fine) dx,
                                        m_offy := cut_fine (m_offy fine) dy,
                                        m_offz := cut_fine (m_offz fine) dz\<rparr>
                       in find_new_levelmin (gh1\<lparr>m_pgrids := (m_pgrids gh1)[ilevel + 1 := fine']\<rparr>)
                  else find_new_levelmin gh1)"

text \<open>
  \<^verbatim>\<open>create_base_hierarchy\<close>: after \<^verbatim>\<open>deallocate\<close>, level \<open>i\<close> gets a zeroed cubic
  grid of extent \<open>n\<close>, where the \<^verbatim>\<open>unsigned n\<close> starts at 1 and is doubled in every pass.
\<close>

definition base_step ::
  "nat \<Rightarrow> (nat \<Rightarrow> 'a) \<Rightarrow> nat \<Rightarrow> 'a::zero GridHierarchy \<times> int \<Rightarrow>
   error option \<times> ('a GridHierarchy \<times> int)" where
  "base_step nbnd junk i st =
     (case st of (gh, n) \<Rightarrow>
        (case zero_mesh (MeshvarBnd_new (s32 (int nbnd)) (nat n) (nat n) (nat n) 0 0 0 junk) of
           (Some e, _) \<Rightarrow> (Some e, st)
         | (None, g) \<Rightarrow>
             (None, (gh\<lparr>m_pgrids := m_pgrids gh @ [g],
                        m_xoffabs := m_xoffabs gh @ [0],
                        m_yoffabs := m_yoffabs gh @ [0],
                        m_zoffabs := m_zoffabs gh @ [0]\<rparr>, u32 (n * 2)))))"

definition create_base_hierarchy ::
  "nat \<Rightarrow> (nat \<Rightarrow> 'a) \<Rightarrow> 'a::zero GridHierarchy \<Rightarrow> error option \<times> 'a GridHierarchy" where
  "create_base_hierarchy lmax junk gh =
     (case for_each [0..<Suc lmax] (base_step (gh_nbnd gh) junk)
             (gh\<lparr>m_pgrids := [], m_xoffabs := [], m_yoffabs := [], m_zoffabs := [], m_levelmin := 0\<rparr>, 1) of
        (Some e, (gh', _)) \<Rightarrow> (Some e, gh')
      | (None, (gh', _)) \<Rightarrow> (None, gh'\<lparr>m_levelmin := lmax\<rparr>))"

section \<open>refinement\_hierarchy: the layout of the refinement levels\<close>

subsection \<open>The parts that are not in mesh.hh\<close>

text \<open>
  Modelled from the spec: \<^verbatim>\<open>config_file\<close> (config\_file.hh is not part of the source),
  the key/value store read by the constructor. It holds the keys \<^verbatim>\<open>levelmin\<close>,
  \<^verbatim>\<open>levelmax\<close>, \<^verbatim>\<open>levelmin_TF\<close> (defaults to \<^verbatim>\<open>levelmin\<close>), \<^verbatim>\<open>padding\<close>,
  \<^verbatim>\<open>align_top\<close>, \<^verbatim>\<open>ref_extent\<close>, one of \<^verbatim>\<open>ref_center\<close> and \<^verbatim>\<open>ref_offset\<close>,
  \<^verbatim>\<open>no_shift\<close> and \<^verbatim>\<open>force_shift\<close> (default false), and receives the computed
  shift under \<^verbatim>\<open>shift_x\<close>, \<^verbatim>\<open>shift_y\<close> and \<^verbatim>\<open>shift_z\<close>. The three-number
  literals are held as they come out of \<^verbatim>\<open>sscanf\<close>, the written shifts as the integers
  that \<^verbatim>\<open>sprintf\<close> prints. An optional key that is absent is \<open>None\<close>.
\<close>

record config_file =
  cf_levelmin :: nat
  cf_levelmax :: nat
  cf_levelmin_TF :: "nat option"
  cf_padding :: nat
  cf_align_top :: bool
  cf_no_shift :: "bool option"
  cf_force_shift :: "bool option"
  cf_ref_extent :: "real \<times> real \<times> real"
  cf_ref_offset :: "(real \<times> real \<times> real) option"
  cf_ref_center :: "(real \<times> real \<times> real) option"
  cf_shift_x :: "int option"
  cf_shift_y :: "int option"
  cf_shift_z :: "int option"

text \<open>
  Modelled from the spec: \<^verbatim>\<open>LOGERR\<close>, declared in log.hh, which is not part of the
  source. The spec names the degenerate bounding box a fatal layout error at which
  construction aborts and no recovery is attempted: \<^verbatim>\<open>LOGERR\<close> with the bounding box
  message ends the construction with \<open>BoundingBoxError\<close>, carrying the six printed numbers.
\<close>

definition LOGERR :: "int \<Rightarrow> int \<Rightarrow> int \<Rightarrow> int \<Rightarrow> int \<Rightarrow> int \<Rightarrow> error" where
  "LOGERR a b c d e f = BoundingBoxError a b c d e f"

subsection \<open>Arithmetic of the constructor\<close>

text \<open>
  A \<^verbatim>\<open>double\<close> is held as the real number it stands for. Every addition, subtraction,
  multiplication and division of the constructor that can round is followed by \<open>dbl\<close>, the
  rounding of binary64: to the nearest number with 53 significant bits, a tie going to the
  even one. The exponent is taken as unbounded (no overflow to infinity and no subnormal
  numbers), and infinities and NaNs are not represented. \<open>nearest_even\<close> rounds a real to
  the nearest integer in the same way.
\<close>

definition nearest_even :: "real \<Rightarrow> int" where
  "nearest_even y =
     (let f = \<lfloor>y\<rfloor>
      in if y - of_int f < 1 / 2 then f
         else if 1 / 2 < y - of_int f then f + 1
         else if even f then f else f + 1)"

definition dbl :: "real \<Rightarrow> real" where
  "dbl x =
     (if x = 0 then 0
      else let q = 2 powr (of_int \<lfloor>log 2 \<bar>x\<bar>\<rfloor> - 52)
           in q * of_int (nearest_even (x / q)))"

text \<open>
  \<open>c_int\<close> is the cast \<^verbatim>\<open>(int)\<close> of a \<^verbatim>\<open>double\<close>, which drops the fraction;
  \<open>fmod\<close> is the function of \<^verbatim>\<open>math.h\<close>, whose result has the sign of its first
  argument and is computed without rounding.
\<close>

definition c_int :: "real \<Rightarrow> int" where
  "c_int x = (if 0 \<le> x then \<lfloor>x\<rfloor> else \<lceil>x\<rceil>)"

definition fmod :: "real \<Rightarrow> real \<Rightarrow> real" where
  "fmod x y = x - y * real_of_int (c_int (x / y))"

text \<open>
  \<^verbatim>\<open>x0ref_[d] = fmod( x0ref_[d]-0.5*lxref_[d]+1.0,1.0)\<close>: the origin of the region, when
  its centre is given. The product, the difference and the sum round in turn.
\<close>

definition origin_of_center :: "real \<Rightarrow> real \<Rightarrow> real" where
  "origin_of_center c l = fmod (dbl (dbl (c - dbl (0.5 * l)) + 1.0)) 1.0"

text \<open>\<^verbatim>\<open>xc[d] = fmod(x0ref_[d]+0.5*lxref_[d],1.0)\<close>: the centre of the region.\<close>

definition region_center :: "real \<Rightarrow> real \<Rightarrow> real" where
  "region_center x0 l = fmod (dbl (x0 + dbl (0.5 * l))) 1.0"

text \<open>
  The shift of one axis: \<^verbatim>\<open>(int)((0.5-xc[d])*ncoarse)\<close> under the condition
  \<^verbatim>\<open>(levelmin_ != levelmax_) && (!bnoshift || force_shift)\<close>, else 0. The
  \<^verbatim>\<open>unsigned ncoarse\<close> is converted to \<^verbatim>\<open>double\<close> for the product.
\<close>

definition shift_axis :: "nat \<Rightarrow> nat \<Rightarrow> bool \<Rightarrow> bool \<Rightarrow> int \<Rightarrow> real \<Rightarrow> int" where
  "shift_axis lmin lmax bnoshift force_shift ncoarse xc =
     (if lmin \<noteq> lmax \<and> (\<not> bnoshift \<or> force_shift)
      then c_int (dbl (dbl (0.5 - xc) * real_of_int ncoarse)) else 0)"

text \<open>\<^verbatim>\<open>x0ref_[d] += (double)xshift_[d]/ncoarse\<close>\<close>

definition shifted_origin :: "real \<Rightarrow> int \<Rightarrow> int \<Rightarrow> real" where
  "shifted_origin x0 xshift ncoarse = dbl (x0 + dbl (real_of_int xshift / real_of_int ncoarse))"

text \<open>The six bounds \<^verbatim>\<open>il,jl,kl,ir,jr,kr\<close> of the bounding box, all \<^verbatim>\<open>int\<close>.\<close>

record bbox =
  il :: int
  jl :: int
  kl :: int
  ir :: int
  jr :: int
  kr :: int

text \<open>
  Alignment with the top grid: \<^verbatim>\<open>(int)((double)il/nref)*nref\<close> and
  \<^verbatim>\<open>(int)((double)ir/nref+1.0)*nref\<close>, where the product with the \<^verbatim>\<open>unsigned nref\<close>
  is \<^verbatim>\<open>unsigned\<close> and is stored in an \<^verbatim>\<open>int\<close>. The quotient of a 32-bit
  integer by the power of two \<^verbatim>\<open>nref\<close> and its sum with 1 have fewer than 53 significant
  bits, so these two operations do not round.
\<close>

definition top_lo :: "int \<Rightarrow> int \<Rightarrow> int" where
  "top_lo nref lo = s32 (u32 (c_int (real_of_int lo / real_of_int nref) * nref))"

definition top_hi :: "int \<Rightarrow> int \<Rightarrow> int" where
  "top_hi nref hi = s32 (u32 (c_int (real_of_int hi / real_of_int nref + 1.0) * nref))"

text \<open>
  Alignment with the coarser grid: \<^verbatim>\<open>il -= il%2\<close> and \<^verbatim>\<open>ir += ir%2\<close>. The operator
  \<^verbatim>\<open>%\<close> of C++ truncates towards zero, so it is \<open>smod\<close>.
\<close>

definition even_lo :: "int \<Rightarrow> int" where
  "even_lo lo = lo - lo smod 2"

definition even_hi :: "int \<Rightarrow> int" where
  "even_hi hi = hi + hi smod 2"

definition align_box :: "bool \<Rightarrow> int \<Rightarrow> bbox \<Rightarrow> bbox" where
  "align_box align_top nref b =
     (if align_top
      then \<lparr> il = top_lo nref (il b), jl = top_lo nref (jl b), kl = top_lo nref (kl b),
             ir = top_hi nref (ir b), jr = top_hi nref (jr b), kr = top_hi nref (kr b) \<rparr>
      else \<lparr> il = even_lo (il b), jl = even_lo (jl b), kl = even_lo (kl b),
             ir = even_hi (ir b), jr = even_hi (jr b), kr = even_hi (kr b) \<rparr>)"

text \<open>\<^verbatim>\<open>il = (il+nresmax)%nresmax\<close>, and so on for the six bounds.\<close>

definition wrap_axis :: "int \<Rightarrow> int \<Rightarrow> int" where
  "wrap_axis nresmax v = (v + nresmax) smod nresmax"

definition wrap_box :: "int \<Rightarrow> bbox \<Rightarrow> bbox" where
  "wrap_box nresmax b =
     \<lparr> il = wrap_axis nresmax (il b), jl = wrap_axis nresmax (jl b), kl = wrap_axis nresmax (kl b),
       ir = wrap_axis nresmax (ir b), jr = wrap_axis nresmax (jr b), kr = wrap_axis nresmax (kr b) \<rparr>"

text \<open>The condition \<^verbatim>\<open>il>=ir || jl>=jr || kl>=kr\<close>.\<close>

definition degenerate :: "bbox \<Rightarrow> bool" where
  "degenerate b \<longleftrightarrow> il b \<ge> ir b \<or> jl b \<ge> jr b \<or> kl b \<ge> kr b"

text \<open>
  The bounds on the finest grid: \<^verbatim>\<open>(int)(x0ref_[d] * nresmax)\<close> and
  \<^verbatim>\<open>(int)((x0ref_[d]+lxref_[d]) * nresmax + 1.0)\<close>, where the \<^verbatim>\<open>int nresmax\<close>
  is converted to \<^verbatim>\<open>double\<close>; the sum, the product and the sum with 1 round in turn.
\<close>

definition finest_lo :: "int \<Rightarrow> real \<Rightarrow> int" where
  "finest_lo nresmax x0 = c_int (dbl (x0 * real_of_int nresmax))"

definition finest_hi :: "int \<Rightarrow> real \<Rightarrow> real \<Rightarrow> int" where
  "finest_hi nresmax x0 l = c_int (dbl (dbl (dbl (x0 + l) * real_of_int nresmax) + 1.0))"

text \<open>
  The bounds one level up: \<^verbatim>\<open>(int)((double)il * 0.5 - padding_)\<close> and
  \<^verbatim>\<open>(int)((double)ir * 0.5 + padding_)\<close>. Half of a 32-bit integer, the 32-bit
  padding and their sum or difference have fewer than 53 significant bits, so these
  operations do not round.
\<close>

definition coarser_lo :: "nat \<Rightarrow> int \<Rightarrow> int" where
  "coarser_lo padding lo = c_int (real_of_int lo * 0.5 - real padding)"

definition coarser_hi :: "nat \<Rightarrow> int \<Rightarrow> int" where
  "coarser_hi padding hi = c_int (real_of_int hi * 0.5 + real padding)"

definition coarser_box :: "nat \<Rightarrow> bbox \<Rightarrow> bbox" where
  "coarser_box padding b =
     \<lparr> il = coarser_lo padding (il b), jl = coarser_lo padding (jl b), kl = coarser_lo padding (kl b),
       ir = coarser_hi padding (ir b), jr = coarser_hi padding (jr b), kr = coarser_hi padding (kr b) \<rparr>"

subsection \<open>The object and its constructor\<close>

text \<open>
  The field \<open>rh_x0\<close> is the member \<^verbatim>\<open>x0_\<close> of the class, and so on for every
  member (a name cannot end in an underscore here). The vectors \<open>rh_ox\<close> to \<open>rh_nz\<close>
  hold \<^verbatim>\<open>unsigned\<close>s. The reference \<^verbatim>\<open>cf_\<close> to the
  configuration is held as the configuration after the constructor has written to it.
\<close>

record refinement_hierarchy =
  rh_x0 :: "real list"
  rh_y0 :: "real list"
  rh_z0 :: "real list"
  rh_xl :: "real list"
  rh_yl :: "real list"
  rh_zl :: "real list"
  rh_ox :: "int list"
  rh_oy :: "int list"
  rh_oz :: "int list"
  rh_oax :: "int list"
  rh_oay :: "int list"
  rh_oaz :: "int list"
  rh_nx :: "int list"
  rh_ny :: "int list"
  rh_nz :: "int list"
  rh_levelmin :: nat
  rh_levelmax :: nat
  rh_levelmin_tf :: nat
  rh_padding :: nat
  rh_cf :: config_file
  rh_align_top :: bool
  rh_x0ref :: "real \<times> real \<times> real"
  rh_lxref :: "real \<times> real \<times> real"
  rh_xshift :: "int \<times> int \<times> int"

text \<open>
  The origin of the region as the constructor reads it: from \<^verbatim>\<open>ref_center\<close> when that
  key is present, else from \<^verbatim>\<open>ref_offset\<close>, whose absence makes \<^verbatim>\<open>getValue\<close> fail.
\<close>

definition region_origin :: "config_file \<Rightarrow> error + (real \<times> real \<times> real)" where
  "region_origin cf =
     (case cf_ref_extent cf of (lx, ly, lz) \<Rightarrow>
        (case cf_ref_center cf of
           Some (cx, cy, cz) \<Rightarrow>
             Inr (origin_of_center cx lx, origin_of_center cy ly, origin_of_center cz lz)
         | None \<Rightarrow>
             (case cf_ref_offset cf of Some off \<Rightarrow> Inr off | None \<Rightarrow> Inl MissingKey)))"

text \<open>
  One pass of the loop over the coarser levels,
  \<^verbatim>\<open>for( unsigned ilevel=levelmax_-1; ilevel> levelmin_; --ilevel )\<close>: halve and pad the
  bounds, align them, report a degenerate box, record offset and extent of the level.
\<close>

definition coarse_step ::
  "nat \<Rightarrow> bbox \<times> refinement_hierarchy \<Rightarrow> error option \<times> (bbox \<times> refinement_hierarchy)" where
  "coarse_step ilevel st =
     (case st of (b, rh) \<Rightarrow>
        if rh_align_top rh \<and> 32 \<le> ilevel - rh_levelmin rh then (Some BadShift, st)
        else
          let b' = align_box (rh_align_top rh) (u32 (shl1 (ilevel - rh_levelmin rh)))
                     (coarser_box (rh_padding rh) b)
          in if degenerate b'
             then (Some (LOGERR (il b') (ir b') (jl b') (jr b') (kl b') (kr b')), (b', rh))
             else if \<not> ilevel < Suc (rh_levelmax rh) then (Some OutOfBounds, (b', rh))
             else (None, (b', rh\<lparr>
                     rh_oax := (rh_oax rh)[ilevel := u32 (il b')],
                     rh_oay := (rh_oay rh)[ilevel := u32 (jl b')],
                     rh_oaz := (rh_oaz rh)[ilevel := u32 (kl b')],
                     rh_nx := (rh_nx rh)[ilevel := u32 (ir b' - il b')],
                     rh_ny := (rh_ny rh)[ilevel := u32 (jr b' - jl b')],
                     rh_nz := (rh_nz rh)[ilevel := u32 (kr b' - kl b')]\<rparr>)))"

text \<open>
  The three closing loops of the constructor. Their level indices lie within the vectors,
  which hold \<^verbatim>\<open>levelmax_+1\<close> entries each.
\<close>

definition relative_step :: "nat \<Rightarrow> refinement_hierarchy \<Rightarrow> refinement_hierarchy" where
  "relative_step ilevel rh =
     rh\<lparr> rh_ox := (rh_ox rh)[ilevel := u32 (rh_oax rh ! ilevel div 2 - rh_oax rh ! (ilevel - 1))],
         rh_oy := (rh_oy rh)[ilevel := u32 (rh_oay rh ! ilevel div 2 - rh_oay rh ! (ilevel - 1))],
         rh_oz := (rh_oz rh)[ilevel := u32 (rh_oaz rh ! ilevel div 2 - rh_oaz rh ! (ilevel - 1))] \<rparr>"

text \<open>
  In \<open>normalized_step\<close> the factor \<^verbatim>\<open>h = 1.0/(1<<ilevel)\<close> is a power of two and the
  other factor a 32-bit integer, so the quotient and the products do not round.
\<close>

definition normalized_step :: "nat \<Rightarrow> refinement_hierarchy \<Rightarrow> refinement_hierarchy" where
  "normalized_step ilevel rh =
     (let h = 1 / real_of_int (shl1 ilevel)
      in rh\<lparr> rh_x0 := (rh_x0 rh)[ilevel := h * real_of_int (rh_oax rh ! ilevel)],
             rh_y0 := (rh_y0 rh)[ilevel := h * real_of_int (rh_oay rh ! ilevel)],
             rh_z0 := (rh_z0 rh)[ilevel := h * real_of_int (rh_oaz rh ! ilevel)],
             rh_xl := (rh_xl rh)[ilevel := h * real_of_int (rh_nx rh ! ilevel)],
             rh_yl := (rh_yl rh)[ilevel := h * real_of_int (rh_ny rh ! ilevel)],
             rh_zl := (rh_zl rh)[ilevel := h * real_of_int (rh_nz rh ! ilevel)] \<rparr>)"

definition base_level_step :: "nat \<Rightarrow> refinement_hierarchy \<Rightarrow> refinement_hierarchy" where
  "base_level_step ilevel rh =
     (let n = u32 (shl1 ilevel)
      in rh\<lparr> rh_xl := (rh_xl rh)[ilevel := 1], rh_yl := (rh_yl rh)[ilevel := 1], rh_zl := (rh_zl rh)[ilevel := 1],
             rh_nx := (rh_nx rh)[ilevel := n], rh_ny := (rh_ny rh)[ilevel := n], rh_nz := (rh_nz rh)[ilevel := n] \<rparr>)"

definition closing_loops :: "refinement_hierarchy \<Rightarrow> refinement_hierarchy" where
  "closing_loops rh =
     fold base_level_step [0..<Suc (rh_levelmin rh)]
       (fold normalized_step [Suc (rh_levelmin rh)..<Suc (rh_levelmax rh)]
          (fold relative_step (rev [Suc (rh_levelmin rh)..<Suc (rh_levelmax rh)]) rh))"

text \<open>
  The bounding box on the finest grid, from the shifted origin and the extent of the
  region: bounds, alignment, wrapping into the domain.
\<close>

definition finest_box ::
  "bool \<Rightarrow> int \<Rightarrow> int \<Rightarrow> real \<times> real \<times> real \<Rightarrow> real \<times> real \<times> real \<Rightarrow> bbox" where
  "finest_box align_top nref nresmax x0ref lxref =
     (case x0ref of (x0, y0, z0) \<Rightarrow> case lxref of (lx, ly, lz) \<Rightarrow>
        wrap_box nresmax (align_box align_top nref
          \<lparr> il = finest_lo nresmax x0, jl = finest_lo nresmax y0, kl = finest_lo nresmax z0,
            ir = finest_hi nresmax x0 lx, jr = finest_hi nresmax y0 ly,
            kr = finest_hi nresmax z0 lz \<rparr>))"

text \<open>
  The state of the object after the shift has been computed, written to the configuration
  and applied to the origin, and the vectors have been initialised.
\<close>

definition after_shift :: "config_file \<Rightarrow> real \<times> real \<times> real \<Rightarrow> refinement_hierarchy" where
  "after_shift cf x0ref =
     (case x0ref of (x0, y0, z0) \<Rightarrow> case cf_ref_extent cf of (lx, ly, lz) \<Rightarrow>
        let lmin = cf_levelmin cf; lmax = cf_levelmax cf;
            bnoshift = (case cf_no_shift cf of None \<Rightarrow> False | Some v \<Rightarrow> v);
            force_shift = (case cf_force_shift cf of None \<Rightarrow> False | Some v \<Rightarrow> v);
            ncoarse = u32 (shl1 lmin);
            sx = shift_axis lmin lmax bnoshift force_shift ncoarse (region_center x0 lx);
            sy = shift_axis lmin lmax bnoshift force_shift ncoarse (region_center y0 ly);
            sz = shift_axis lmin lmax bnoshift force_shift ncoarse (region_center z0 lz)
        in \<lparr> rh_x0 = replicate (lmax + 1) 0, rh_y0 = replicate (lmax + 1) 0, rh_z0 = replicate (lmax + 1) 0,
             rh_xl = replicate (lmax + 1) 1, rh_yl = replicate (lmax + 1) 1, rh_zl = replicate (lmax + 1) 1,
             rh_ox = replicate (lmax + 1) 0, rh_oy = replicate (lmax + 1) 0, rh_oz = replicate (lmax + 1) 0,
             rh_oax = replicate (lmax + 1) 0, rh_oay = replicate (lmax + 1) 0,
             rh_oaz = replicate (lmax + 1) 0,
             rh_nx = replicate (lmax + 1) 0, rh_ny = replicate (lmax + 1) 0, rh_nz = replicate (lmax + 1) 0,
             rh_levelmin = lmin, rh_levelmax = lmax,
             rh_levelmin_tf = (case cf_levelmin_TF cf of None \<Rightarrow> lmin | Some v \<Rightarrow> v),
             rh_padding = cf_padding cf,
             rh_cf = cf\<lparr>cf_shift_x := Some sx, cf_shift_y := Some sy, cf_shift_z := Some sz\<rparr>,
             rh_align_top = cf_align_top cf,
             rh_x0ref = (shifted_origin x0 sx ncoarse, shifted_origin y0 sy ncoarse,
                       shifted_origin z0 sz ncoarse),
             rh_lxref = (lx, ly, lz),
             rh_xshift = (sx, sy, sz) \<rparr>)"

text \<open>
  \<^verbatim>\<open>nx_[levelmin_] = ncoarse\<close>, and the same for \<^verbatim>\<open>ny_\<close> and \<^verbatim>\<open>nz_\<close>.
\<close>

definition with_base_extent :: "refinement_hierarchy \<Rightarrow> refinement_hierarchy" where
  "with_base_extent rh =
     rh\<lparr> rh_nx := (rh_nx rh)[rh_levelmin rh := u32 (shl1 (rh_levelmin rh))],
         rh_ny := (rh_ny rh)[rh_levelmin rh := u32 (shl1 (rh_levelmin rh))],
         rh_nz := (rh_nz rh)[rh_levelmin rh := u32 (shl1 (rh_levelmin rh))] \<rparr>"

text \<open>
  The block under \<^verbatim>\<open>if( levelmin_ != levelmax_ )\<close>: offset and extent of the finest
  level are recorded from the wrapped bounds.
\<close>

definition record_finest :: "int \<Rightarrow> bbox \<Rightarrow> refinement_hierarchy \<Rightarrow> refinement_hierarchy" where
  "record_finest nresmax b rh =
     (if rh_levelmin rh \<noteq> rh_levelmax rh
      then rh\<lparr> rh_oax := (rh_oax rh)[rh_levelmax rh := u32 (wrap_axis nresmax (il b))],
                rh_oay := (rh_oay rh)[rh_levelmax rh := u32 (wrap_axis nresmax (jl b))],
                rh_oaz := (rh_oaz rh)[rh_levelmax rh := u32 (wrap_axis nresmax (kl b))],
                rh_nx := (rh_nx rh)[rh_levelmax rh := u32 (ir b - il b)],
                rh_ny := (rh_ny rh)[rh_levelmax rh := u32 (jr b - jl b)],
                rh_nz := (rh_nz rh)[rh_levelmax rh := u32 (kr b - kl b)] \<rparr>
      else rh)"

text \<open>
  The second half of the constructor, from \<^verbatim>\<open>nx_[levelmin_] = ncoarse\<close> on: it works
  on the object as \<open>after_shift\<close> leaves it. The loop variable of the loop over the coarser
  levels starts at the \<^verbatim>\<open>unsigned\<close> \<^verbatim>\<open>levelmax_-1\<close>.
\<close>

definition build_levels :: "refinement_hierarchy \<Rightarrow> error + refinement_hierarchy" where
  "build_levels rh0 =
     (let lmin = rh_levelmin rh0; lmax = rh_levelmax rh0
      in if \<not> lmin < Suc lmax then Inl OutOfBounds
         else if 32 \<le> lmax then Inl BadShift
         else if rh_align_top rh0 \<and> 32 \<le> lmax - lmin + 1 then Inl BadShift
         else
           let nresmax = shl1 lmax;
               b = finest_box (rh_align_top rh0) (u32 (shl1 (lmax - lmin + 1))) nresmax
                     (rh_x0ref rh0) (rh_lxref rh0)
           in if degenerate b
              then Inl (LOGERR (il b) (ir b) (jl b) (jr b) (kl b) (kr b))
              else
                case for_each (rev [Suc lmin..<Suc (nat (u32 (int lmax - 1)))])
                       coarse_step (b, record_finest nresmax b (with_base_extent rh0)) of
                  (Some e, _) \<Rightarrow> Inl e
                | (None, (_, rh3)) \<Rightarrow> Inr (closing_loops rh3))"

text \<open>
  The constructor \<^verbatim>\<open>refinement_hierarchy( config_file& cf )\<close>: it refuses a
  configuration with both \<^verbatim>\<open>ref_offset\<close> and \<^verbatim>\<open>ref_center\<close>, reads the region,
  computes \<^verbatim>\<open>ncoarse = 1<<levelmin_\<close> and the shift, and derives the levels.
\<close>

definition refinement_hierarchy_new :: "config_file \<Rightarrow> error + refinement_hierarchy" where
  "refinement_hierarchy_new cf =
     (if cf_ref_offset cf \<noteq> None \<and> cf_ref_center cf \<noteq> None then Inl BothOffsetAndCenter
      else case region_origin cf of
        Inl e \<Rightarrow> Inl e
      | Inr x0ref \<Rightarrow>
          if 32 \<le> cf_levelmin cf then Inl BadShift
          else build_levels (after_shift cf x0ref))"

text \<open>
  The bounding box the constructor holds \<open>k\<close> levels below the finest one, where \<open>b\<close> is the
  box of the finest level: each pass of the loop over the coarser levels halves, pads and
  aligns the box of the pass before.
\<close>

primrec box_down :: "bool \<Rightarrow> nat \<Rightarrow> nat \<Rightarrow> nat \<Rightarrow> bbox \<Rightarrow> nat \<Rightarrow> bbox" where
  "box_down align_top padding lmin lmax b 0 = b"
| "box_down align_top padding lmin lmax b (Suc k) =
     align_box align_top (u32 (shl1 (lmax - Suc k - lmin)))
       (coarser_box padding (box_down align_top padding lmin lmax b k))"

text \<open>\<^verbatim>\<open>refinement_hierarchy::find_new_levelmin\<close>, one pass of its loop and the loop.\<close>

definition rh_fnl_step :: "nat \<Rightarrow> refinement_hierarchy \<Rightarrow> error option \<times> refinement_hierarchy" where
  "rh_fnl_step i rh =
     (if 32 \<le> i then (Some BadShift, rh)
      else if \<not> (i < length (rh_oax rh) \<and> i < length (rh_oay rh) \<and> i < length (rh_oaz rh)
                 \<and> i < length (rh_nx rh) \<and> i < length (rh_ny rh) \<and> i < length (rh_nz rh))
           then (Some OutOfBounds, rh)
      else if rh_oax rh ! i = 0 \<and> rh_oay rh ! i = 0 \<and> rh_oaz rh ! i = 0
              \<and> rh_nx rh ! i = u32 (shl1 i) \<and> rh_ny rh ! i = u32 (shl1 i) \<and> rh_nz rh ! i = u32 (shl1 i)
           then (None, rh\<lparr>rh_levelmin := i\<rparr>)
           else (None, rh))"

definition rh_find_new_levelmin :: "refinement_hierarchy \<Rightarrow> error option \<times> refinement_hierarchy" where
  "rh_find_new_levelmin rh = for_each [0..<Suc (rh_levelmax rh)] rh_fnl_step rh"

section \<open>Predicates and example inputs of the verification\<close>

text \<open>What the loops of the constructor of the layout leave alone.\<close>

definition same_settings :: "refinement_hierarchy \<Rightarrow> refinement_hierarchy \<Rightarrow> bool" where
  "same_settings rh rh' \<longleftrightarrow>
     rh_levelmin rh' = rh_levelmin rh \<and> rh_levelmax rh' = rh_levelmax rh
     \<and> rh_padding rh' = rh_padding rh \<and> rh_align_top rh' = rh_align_top rh
     \<and> rh_cf rh' = rh_cf rh \<and> rh_x0ref rh' = rh_x0ref rh \<and> rh_lxref rh' = rh_lxref rh
     \<and> rh_xshift rh' = rh_xshift rh
     \<and> length (rh_nx rh') = length (rh_nx rh) \<and> length (rh_ny rh') = length (rh_ny rh)
     \<and> length (rh_nz rh') = length (rh_nz rh)"



text \<open>
  Three configurations: one whose region wraps around the domain boundary and is shifted,
  one whose bounding box on the finest grid degenerates, and one whose region is given by its
  centre and has the extent \<^verbatim>\<open>0.3,0.25,0.25\<close>, where 0.3 is read as the binary64 number
  \<open>5404319552844595 / 2 ^ 54\<close>.
\<close>

definition layout_example :: config_file where
  "layout_example = \<lparr> cf_levelmin = 1, cf_levelmax = 3, cf_levelmin_TF = None, cf_padding = 1,
     cf_align_top = False, cf_no_shift = None, cf_force_shift = None,
     cf_ref_extent = (1/4, 1/4, 1/4),
     cf_ref_offset = Some (7/8, 3/8, 3/8), cf_ref_center = None,
     cf_shift_x = None, cf_shift_y = None, cf_shift_z = None \<rparr>"

definition degenerate_example :: config_file where
  "degenerate_example = \<lparr> cf_levelmin = 1, cf_levelmax = 2, cf_levelmin_TF = None, cf_padding = 1,
     cf_align_top = False, cf_no_shift = None, cf_force_shift = None,
     cf_ref_extent = (1/2, 1/4, 1/4),
     cf_ref_offset = Some (3/4, 1/4, 1/4), cf_ref_center = None,
     cf_shift_x = None, cf_shift_y = None, cf_shift_z = None \<rparr>"


definition shift_example :: config_file where
  "shift_example = \<lparr> cf_levelmin = 2, cf_levelmax = 4, cf_levelmin_TF = None, cf_padding = 1,
     cf_align_top = False, cf_no_shift = None, cf_force_shift = None,
     cf_ref_extent = (5404319552844595 / 18014398509481984, 1/4, 1/4),
     cf_ref_offset = None, cf_ref_center = Some (1/4, 11/16, 7/8),
     cf_shift_x = None, cf_shift_y = None, cf_shift_z = None \<rparr>"
section \<open>Facts about the machine integers and the loops\<close>

lemma u32_id: "0 \<le> x \<Longrightarrow> x < 2 ^ 32 \<Longrightarrow> u32 x = x"
  by (simp add: u32_def)

lemma s32_id: "- (2 ^ 31) \<le> x \<Longrightarrow> x < 2 ^ 31 \<Longrightarrow> s32 x = x"
  by (simp add: s32_def)

lemma s32_u32: "s32 (u32 x) = s32 x"
  by (simp add: s32_def u32_def mod_add_left_eq)

lemma u32_u32_add: "u32 (u32 x + y) = u32 (x + y)"
  by (simp add: u32_def mod_add_left_eq)

lemma u32_mult2: "u32 (2 * u32 x) = u32 (2 * x)"
  by (simp add: u32_def mod_mult_right_eq)

lemma u64_id: "0 \<le> x \<Longrightarrow> x < 2 ^ 64 \<Longrightarrow> u64 x = nat x"
  by (simp add: u64_def)

lemma u64_int: "n < 2 ^ 64 \<Longrightarrow> u64 (int n) = n"
  by (simp add: u64_def)

lemma u64_add_sub: "n < 2 ^ 64 \<Longrightarrow> u64 (int (u64 (int n + c)) - c) = n"
proof -
  assume n: "n < 2 ^ 64"
  have "(int (u64 (int n + c)) - c) mod 2 ^ 64 = ((int n + c) mod 2 ^ 64 - c) mod 2 ^ 64"
    by (simp add: u64_def)
  also have "\<dots> = (int n + c - c) mod 2 ^ 64"
    by (simp add: mod_diff_left_eq)
  also have "\<dots> = int n"
    using n by simp
  finally show ?thesis
    by (simp add: u64_def)
qed

lemma shl1_u32: "i < 32 \<Longrightarrow> u32 (shl1 i) = 2 ^ i"
proof -
  assume i: "i < 32"
  have lt: "(2::int) ^ i < 2 ^ 32"
    by (rule power_strict_increasing) (use i in simp_all)
  have "u32 (shl1 i) = u32 (2 ^ i)"
    unfolding shl1_def u32_def s32_def
    by (metis add_diff_cancel_right' mod_add_left_eq mod_diff_left_eq)
  then show ?thesis using lt by (simp add: u32_id)
qed

lemma shl1_small: "i < 31 \<Longrightarrow> shl1 i = 2 ^ i"
proof -
  assume i: "i < 31"
  have "(2::int) ^ i < 2 ^ 31"
    by (rule power_strict_increasing) (use i in simp_all)
  moreover have "- (2 ^ 31) \<le> (2::int) ^ i"
    by (rule order_trans [of _ 0]) simp_all
  ultimately show ?thesis unfolding shl1_def by (rule s32_id [rotated])
qed

lemma for_each_append:
  "for_each (xs @ ys) body s =
     (case for_each xs body s of (None, s') \<Rightarrow> for_each ys body s' | (Some e, s') \<Rightarrow> (Some e, s'))"
  by (induction xs arbitrary: s) (auto simp: and_then_def split: prod.splits option.splits)

lemma for_each_invariant:
  assumes "for_each xs body s = (e, s')"
    and "I s"
    and "\<And>x t e' t'. x \<in> set xs \<Longrightarrow> I t \<Longrightarrow> body x t = (e', t') \<Longrightarrow> I t'"
  shows "I s'"
  using assms
proof (induction xs arbitrary: s)
  case Nil
  then show ?case by simp
next
  case (Cons x xs)
  obtain e1 s1 where b: "body x s = (e1, s1)" by (cases "body x s")
  have I1: "I s1" using Cons.prems(3) [of x s e1 s1] Cons.prems(2) b by simp
  show ?case
  proof (cases e1)
    case None
    then have "for_each xs body s1 = (e, s')"
      using Cons.prems(1) b by (simp add: and_then_def)
    show ?thesis
    proof (rule Cons.IH [OF \<open>for_each xs body s1 = (e, s')\<close> I1])
      fix y t e' t'
      assume "y \<in> set xs" "I t" "body y t = (e', t')"
      then show "I t'" using Cons.prems(3) [of y t e' t'] by simp
    qed
  next
    case (Some a)
    then have "s' = s1" using Cons.prems(1) b by (simp add: and_then_def)
    then show ?thesis using I1 by simp
  qed
qed

lemma fold_invariant:
  assumes "I s" and "\<And>x t. x \<in> set xs \<Longrightarrow> I t \<Longrightarrow> I (f x t)"
  shows "I (fold f xs s)"
  using assms by (induction xs arbitrary: s) simp_all

section \<open>Meshvar: element-wise operators\<close>

lemma elem_assign_loop:
  fixes m :: "('a::{plus,minus,times,inverse}, 'b) Meshvar_scheme"
  assumes "n \<le> length (m_pdata m)" "n \<le> length (m_pdata v)"
  shows "for_each [0..<n] (elem_assign bop v) m =
           (None, m\<lparr>m_pdata := take n (map2 (apply_binop bop) (m_pdata m) (m_pdata v)) @ drop n (m_pdata m)\<rparr>)"
  using assms
proof (induction n)
  case 0
  show ?case by simp
next
  case (Suc n)
  let ?xs = "m_pdata m" and ?ys = "m_pdata v"
  let ?zs = "map2 (apply_binop bop) ?xs ?ys"
  have n: "n < length ?xs" "n < length ?ys" using Suc.prems by auto
  have step: "(take n ?zs @ drop n ?xs)[n := apply_binop bop ((take n ?zs @ drop n ?xs) ! n) (?ys ! n)]
        = take (Suc n) ?zs @ drop (Suc n) ?xs"
  proof -
    have lz: "length (take n ?zs) = n" using n by simp
    have "take n ?zs @ drop n ?xs = take n ?zs @ (?xs ! n) # drop (Suc n) ?xs"
      using n by (simp add: Cons_nth_drop_Suc)
    moreover have "take (Suc n) ?zs = take n ?zs @ [apply_binop bop (?xs ! n) (?ys ! n)]"
      using n by (simp add: take_Suc_conv_app_nth)
    ultimately show ?thesis
      using lz by (simp add: nth_append list_update_append)
  qed
  show ?case
    using Suc.IH n step by (simp add: for_each_append elem_assign_def and_then_def)
qed


lemma apply_binop_cases:
  "apply_binop bop =
     (\<lambda>x y. case bop of MulAssign \<Rightarrow> x * y | DivAssign \<Rightarrow> x / y
                        | AddAssign \<Rightarrow> x + y | SubAssign \<Rightarrow> x - y)"
  by (cases bop) (simp_all add: fun_eq_iff)

lemma meshvar_assign_op_run:
  fixes a :: "('a::{plus,minus,times,inverse}, 'b) Meshvar_scheme"
    and b :: "('a, 'c) Meshvar_scheme"
  assumes "allocated a" and "allocated b"
  shows "m_nx b * m_ny b * m_nz b \<noteq> m_nx a * m_ny a * m_nz a \<Longrightarrow>
           meshvar_assign_op bop a b = (Some IncompatibleData, a)"
    and "m_nx b * m_ny b * m_nz b = m_nx a * m_ny a * m_nz a \<Longrightarrow>
           meshvar_assign_op bop a b =
             (None, a\<lparr>m_pdata := map2 (apply_binop bop) (m_pdata a) (m_pdata b)\<rparr>)"
    and "m_nx b * m_ny b * m_nz b = m_nx a * m_ny a * m_nz a \<Longrightarrow>
           length (m_pdata b) = length (m_pdata a)"
proof -
  have sa: "msize a = m_nx a * m_ny a * m_nz a" and la: "length (m_pdata a) = msize a"
    using assms(1) by (simp_all add: allocated_def msize_def)
  have sb: "msize b = m_nx b * m_ny b * m_nz b" and lb: "length (m_pdata b) = msize b"
    using assms(2) by (simp_all add: allocated_def msize_def)
  show "meshvar_assign_op bop a b = (Some IncompatibleData, a)"
    if "m_nx b * m_ny b * m_nz b \<noteq> m_nx a * m_ny a * m_nz a"
    using that by (simp add: meshvar_assign_op_def sa sb)
  show "meshvar_assign_op bop a b =
             (None, a\<lparr>m_pdata := map2 (apply_binop bop) (m_pdata a) (m_pdata b)\<rparr>)"
    if "m_nx b * m_ny b * m_nz b = m_nx a * m_ny a * m_nz a"
  proof -
    have eq: "msize b = msize a" using that by (simp add: sa sb)
    have "for_each [0..<msize a] (elem_assign bop b) a =
            (None, a\<lparr>m_pdata := take (msize a) (map2 (apply_binop bop) (m_pdata a) (m_pdata b))
                                  @ drop (msize a) (m_pdata a)\<rparr>)"
      by (rule elem_assign_loop) (simp_all add: la lb eq)
    then show ?thesis
      using eq by (simp add: meshvar_assign_op_def la lb)
  qed
  show "length (m_pdata b) = length (m_pdata a)"
    if "m_nx b * m_ny b * m_nz b = m_nx a * m_ny a * m_nz a"
    using that by (simp add: la lb sa sb)
qed

text \<open>
  C6. For two meshes whose buffers are allocated, an element-wise operator raises the
  incompatible-data error exactly when the products of the extents differ; the shapes are
  not compared axis by axis. When it raises, the target is left as it was. When the
  products agree it raises nothing, the target keeps its extents and offsets, and every
  cell \<open>i\<close> of its buffer becomes: for \<^verbatim>\<open>*=\<close> the product, for \<^verbatim>\<open>/=\<close> the quotient,
  for \<^verbatim>\<open>+=\<close> the sum and for \<^verbatim>\<open>-=\<close> the difference of cell \<open>i\<close> of the target and
  cell \<open>i\<close> of the argument, in buffer order.
\<close>

theorem meshvar_assign_op_spec:
  fixes a :: "('a::{plus,minus,times,inverse}, 'b) Meshvar_scheme"
    and b :: "('a, 'c) Meshvar_scheme"
  assumes "allocated a" and "allocated b"
  shows "((fst (meshvar_assign_op bop a b) = Some IncompatibleData) \<longleftrightarrow>
            m_nx b * m_ny b * m_nz b \<noteq> m_nx a * m_ny a * m_nz a)
       \<and> (m_nx b * m_ny b * m_nz b \<noteq> m_nx a * m_ny a * m_nz a \<longrightarrow>
            meshvar_assign_op bop a b = (Some IncompatibleData, a))
       \<and> (m_nx b * m_ny b * m_nz b = m_nx a * m_ny a * m_nz a \<longrightarrow>
            meshvar_assign_op MulAssign a b =
              (None, a\<lparr>m_pdata := map2 (\<lambda>x y. x * y) (m_pdata a) (m_pdata b)\<rparr>)
            \<and> meshvar_assign_op DivAssign a b =
              (None, a\<lparr>m_pdata := map2 (\<lambda>x y. x / y) (m_pdata a) (m_pdata b)\<rparr>)
            \<and> meshvar_assign_op AddAssign a b =
              (None, a\<lparr>m_pdata := map2 (\<lambda>x y. x + y) (m_pdata a) (m_pdata b)\<rparr>)
            \<and> meshvar_assign_op SubAssign a b =
              (None, a\<lparr>m_pdata := map2 (\<lambda>x y. x - y) (m_pdata a) (m_pdata b)\<rparr>)
            \<and> length (m_pdata b) = length (m_pdata a)
            \<and> (\<forall>i < length (m_pdata a).
                  m_pdata (snd (meshvar_assign_op MulAssign a b)) ! i = m_pdata a ! i * m_pdata b ! i
                  \<and> m_pdata (snd (meshvar_assign_op DivAssign a b)) ! i = m_pdata a ! i / m_pdata b ! i
                  \<and> m_pdata (snd (meshvar_assign_op AddAssign a b)) ! i = m_pdata a ! i + m_pdata b ! i
                  \<and> m_pdata (snd (meshvar_assign_op SubAssign a b)) ! i = m_pdata a ! i - m_pdata b ! i))"
proof (cases "m_nx b * m_ny b * m_nz b = m_nx a * m_ny a * m_nz a")
  case True
  note run = meshvar_assign_op_run(2) [OF assms True]
  note len = meshvar_assign_op_run(3) [OF assms True]
  have "meshvar_assign_op MulAssign a b =
              (None, a\<lparr>m_pdata := map2 (\<lambda>x y. x * y) (m_pdata a) (m_pdata b)\<rparr>)"
       "meshvar_assign_op DivAssign a b =
              (None, a\<lparr>m_pdata := map2 (\<lambda>x y. x / y) (m_pdata a) (m_pdata b)\<rparr>)"
       "meshvar_assign_op AddAssign a b =
              (None, a\<lparr>m_pdata := map2 (\<lambda>x y. x + y) (m_pdata a) (m_pdata b)\<rparr>)"
       "meshvar_assign_op SubAssign a b =
              (None, a\<lparr>m_pdata := map2 (\<lambda>x y. x - y) (m_pdata a) (m_pdata b)\<rparr>)"
    using run [of MulAssign] run [of DivAssign] run [of AddAssign] run [of SubAssign]
    by (simp_all add: apply_binop_cases)
  moreover have "fst (meshvar_assign_op bop a b) \<noteq> Some IncompatibleData"
    using run [of bop] by simp
  ultimately show ?thesis using True len by simp
next
  case False
  then show ?thesis using meshvar_assign_op_run(1) [OF assms False, of bop] by simp
qed

theorem meshvar_assign_op_spec_witness:
  "meshvar_assign_op MulAssign
     \<lparr> m_nx = 2, m_ny = 3, m_nz = 1, m_offx = 0, m_offy = 0, m_offz = 0,
       m_pdata = [1, 2, 3, 4, 5, 6 :: real] \<rparr>
     \<lparr> m_nx = 3, m_ny = 2, m_nz = 1, m_offx = 4, m_offy = 0, m_offz = 0,
       m_pdata = [10, 20, 30, 40, 50, 60 :: real] \<rparr>
   = (None, \<lparr> m_nx = 2, m_ny = 3, m_nz = 1, m_offx = 0, m_offy = 0, m_offz = 0,
       m_pdata = [10, 40, 90, 160, 250, 360] \<rparr>)
   \<and> meshvar_assign_op DivAssign
     \<lparr> m_nx = 2, m_ny = 3, m_nz = 1, m_offx = 0, m_offy = 0, m_offz = 0,
       m_pdata = [1, 2, 3, 4, 5, 6 :: real] \<rparr>
     \<lparr> m_nx = 3, m_ny = 2, m_nz = 1, m_offx = 4, m_offy = 0, m_offz = 0,
       m_pdata = [10, 20, 30, 40, 50, 60 :: real] \<rparr>
   = (None, \<lparr> m_nx = 2, m_ny = 3, m_nz = 1, m_offx = 0, m_offy = 0, m_offz = 0,
       m_pdata = [1 / 10, 1 / 10, 1 / 10, 1 / 10, 1 / 10, 1 / 10] \<rparr>)
   \<and> meshvar_assign_op AddAssign
     \<lparr> m_nx = 2, m_ny = 3, m_nz = 1, m_offx = 0, m_offy = 0, m_offz = 0,
       m_pdata = [1, 2, 3, 4, 5, 6 :: real] \<rparr>
     \<lparr> m_nx = 3, m_ny = 2, m_nz = 1, m_offx = 4, m_offy = 0, m_offz = 0,
       m_pdata = [10, 20, 30, 40, 50, 60 :: real] \<rparr>
   = (None, \<lparr> m_nx = 2, m_ny = 3, m_nz = 1, m_offx = 0, m_offy = 0, m_offz = 0,
       m_pdata = [11, 22, 33, 44, 55, 66] \<rparr>)
   \<and> meshvar_assign_op SubAssign
     \<lparr> m_nx = 2, m_ny = 3, m_nz = 1, m_offx = 0, m_offy = 0, m_offz = 0,
       m_pdata = [1, 2, 3, 4, 5, 6 :: real] \<rparr>
     \<lparr> m_nx = 3, m_ny = 2, m_nz = 1, m_offx = 4, m_offy = 0, m_offz = 0,
       m_pdata = [10, 20, 30, 40, 50, 60 :: real] \<rparr>
   = (None, \<lparr> m_nx = 2, m_ny = 3, m_nz = 1, m_offx = 0, m_offy = 0, m_offz = 0,
       m_pdata = [- 9, - 18, - 27, - 36, - 45, - 54] \<rparr>)
   \<and> meshvar_assign_op DivAssign
     \<lparr> m_nx = 2, m_ny = 1, m_nz = 1, m_offx = 0, m_offy = 0, m_offz = 0,
       m_pdata = [1, 2 :: real] \<rparr>
     \<lparr> m_nx = 3, m_ny = 1, m_nz = 1, m_offx = 0, m_offy = 0, m_offz = 0,
       m_pdata = [10, 20, 30 :: real] \<rparr>
   = (Some IncompatibleData, \<lparr> m_nx = 2, m_ny = 1, m_nz = 1, m_offx = 0, m_offy = 0, m_offz = 0,
       m_pdata = [1, 2] \<rparr>)"
  using meshvar_assign_op_spec [of
     "\<lparr> m_nx = 2, m_ny = 3, m_nz = 1, m_offx = 0, m_offy = 0, m_offz = 0,
       m_pdata = [1, 2, 3, 4, 5, 6 :: real] \<rparr>"
     "\<lparr> m_nx = 3, m_ny = 2, m_nz = 1, m_offx = 4, m_offy = 0, m_offz = 0,
       m_pdata = [10, 20, 30, 40, 50, 60 :: real] \<rparr>" AddAssign]
    meshvar_assign_op_spec [of
     "\<lparr> m_nx = 2, m_ny = 1, m_nz = 1, m_offx = 0, m_offy = 0, m_offz = 0,
       m_pdata = [1, 2 :: real] \<rparr>"
     "\<lparr> m_nx = 3, m_ny = 1, m_nz = 1, m_offx = 0, m_offy = 0, m_offz = 0,
       m_pdata = [10, 20, 30 :: real] \<rparr>" DivAssign]
  by (simp add: allocated_def)
section \<open>GridHierarchy: cell positions\<close>

text \<open>
  C3, as amended. For a level below 31 that the hierarchy has, \<open>cell_pos\<close> returns the
  coordinates \<open>(absolute offset + index + 1/2) / 2 ^ level\<close>, and the warning is written
  exactly when one of the coordinates is at least 1. It always returns the coordinates.
\<close>

theorem cell_pos_spec:
  assumes "ilevel < 31"
    and "ilevel < length (m_xoffabs gh)"
    and "ilevel < length (m_yoffabs gh)"
    and "ilevel < length (m_zoffabs gh)"
  shows "cell_pos gh ilevel i j k =
           Inr (((real_of_int (m_xoffabs gh ! ilevel) + real_of_int i + 1 / 2) / 2 ^ ilevel,
                 (real_of_int (m_yoffabs gh ! ilevel) + real_of_int j + 1 / 2) / 2 ^ ilevel,
                 (real_of_int (m_zoffabs gh ! ilevel) + real_of_int k + 1 / 2) / 2 ^ ilevel),
                (real_of_int (m_xoffabs gh ! ilevel) + real_of_int i + 1 / 2) / 2 ^ ilevel \<ge> 1
                \<or> (real_of_int (m_yoffabs gh ! ilevel) + real_of_int j + 1 / 2) / 2 ^ ilevel \<ge> 1
                \<or> (real_of_int (m_zoffabs gh ! ilevel) + real_of_int k + 1 / 2) / 2 ^ ilevel \<ge> 1)"
proof -
  have h: "shl1 ilevel = 2 ^ ilevel"
    using assms(1) by (rule shl1_small)
  show ?thesis
    using assms by (simp add: cell_pos_def Let_def h)
qed

theorem cell_pos_spec_witness:
  "cell_pos \<lparr> gh_nbnd = 1, m_levelmin = 0, m_pgrids = [], m_xoffabs = [0, 2], m_yoffabs = [0, 0],
              m_zoffabs = [0, 0] \<rparr> 1 0 (- 1) 1
     = Inr ((5 / 4, - 1 / 4, 3 / 4), True)"
  using cell_pos_spec [of 1 "\<lparr> gh_nbnd = 1, m_levelmin = 0, m_pgrids = [], m_xoffabs = [0, 2],
      m_yoffabs = [0, 0], m_zoffabs = [0, 0] \<rparr>" 0 "- 1" 1]
  by simp

text \<open>
  C3 as stated fails: a ghost cell left of the domain has a negative coordinate, which lies
  outside the interval from 0 to 1, and no warning is written.
\<close>

theorem cell_pos_warning_counterexample:
  "cell_pos \<lparr> gh_nbnd = 1, m_levelmin = 0,
              m_pgrids = [\<lparr> m_nx = 3, m_ny = 3, m_nz = 3, m_offx = 0, m_offy = 0, m_offz = 0,
                           m_pdata = replicate 27 (0::real), m_nbnd = 1 \<rparr>],
              m_xoffabs = [0], m_yoffabs = [0], m_zoffabs = [0] \<rparr> 0 (- 1) 0 0
     = Inr ((- 1 / 2, 1 / 2, 1 / 2), False)"
  by (simp add: cell_pos_def shl1_def s32_def Let_def)


section \<open>Rounding to binary64\<close>

lemma nearest_even_of_int [simp]: "nearest_even (of_int n) = n"
  by (simp add: nearest_even_def)

text \<open>A number with a leading bit at position \<open>52 - k\<close> is rounded to a multiple of \<open>2 ^ - k\<close>.\<close>

lemma dbl_scaled:
  fixes k :: nat
  assumes lo: "2 ^ 52 \<le> \<bar>x\<bar> * 2 ^ k" and hi: "\<bar>x\<bar> * 2 ^ k < 2 ^ 53"
  shows "dbl x = of_int (nearest_even (x * 2 ^ k)) / 2 ^ k"
proof -
  have x0: "x \<noteq> 0" using lo by auto
  then have pos: "0 < \<bar>x\<bar>" by simp
  have "log 2 (\<bar>x\<bar> * 2 ^ k) = log 2 \<bar>x\<bar> + real k"
    using pos by (simp add: log_mult log_nat_power)
  moreover have "52 \<le> log 2 (\<bar>x\<bar> * 2 ^ k)"
    using lo pos by (subst le_log_iff) (simp_all add: powr_numeral)
  moreover have "log 2 (\<bar>x\<bar> * 2 ^ k) < 53"
    using hi pos by (subst log_less_iff) (simp_all add: powr_numeral)
  ultimately have "real_of_int (52 - int k) \<le> log 2 \<bar>x\<bar>" "log 2 \<bar>x\<bar> < real_of_int (52 - int k) + 1"
    by simp_all
  then have e: "\<lfloor>log 2 \<bar>x\<bar>\<rfloor> = 52 - int k"
    by (intro floor_unique) simp_all
  have q: "2 powr (of_int (52 - int k) - 52) = 1 / (2::real) ^ k"
    by (simp add: powr_minus powr_realpow inverse_eq_divide)
  show ?thesis
    unfolding dbl_def Let_def e q using x0 by simp
qed

lemma normalise_exists:
  fixes n :: int
  assumes "n \<noteq> 0" and "\<bar>n\<bar> < 2 ^ 53"
  shows "\<exists>j::nat. 2 ^ 52 \<le> \<bar>n\<bar> * 2 ^ j \<and> \<bar>n\<bar> * 2 ^ j < 2 ^ 53"
proof -
  define P where "P j \<longleftrightarrow> (2::int) ^ 52 \<le> \<bar>n\<bar> * 2 ^ j" for j :: nat
  have "1 \<le> \<bar>n\<bar>" using assms(1) by simp
  then have "(2::int) ^ 52 * 1 \<le> 2 ^ 52 * \<bar>n\<bar>" by (intro mult_left_mono) simp_all
  then have "P 52" by (simp add: P_def mult.commute)
  define j where "j = (LEAST j. P j)"
  have Pj: "P j" unfolding j_def using \<open>P 52\<close> by (rule LeastI)
  show ?thesis
  proof (cases j)
    case 0
    then show ?thesis using Pj assms(2) by (intro exI [of _ 0]) (simp add: P_def)
  next
    case (Suc i)
    have "\<not> P i" using not_less_Least [of i P] Suc unfolding j_def by simp
    then have "\<bar>n\<bar> * 2 ^ i < 2 ^ 52" by (simp add: P_def)
    then have "\<bar>n\<bar> * 2 ^ j < 2 ^ 53" unfolding Suc by simp
    then show ?thesis using Pj by (intro exI [of _ j]) (simp add: P_def)
  qed
qed

text \<open>A number with at most 53 significant bits is not changed.\<close>

lemma dbl_exact:
  fixes k :: nat and n :: int
  assumes "x * 2 ^ k = of_int n" and "\<bar>n\<bar> < 2 ^ 53"
  shows "dbl x = x"
proof (cases "n = 0")
  case True
  then have "x = 0" using assms(1) by simp
  then show ?thesis by (simp add: dbl_def)
next
  case False
  then obtain j :: nat where j: "2 ^ 52 \<le> \<bar>n\<bar> * 2 ^ j" "\<bar>n\<bar> * 2 ^ j < 2 ^ 53"
    using normalise_exists [OF _ assms(2)] by blast
  have xs: "x * 2 ^ (k + j) = of_int (n * 2 ^ j)"
    using assms(1) by (simp add: power_add)
  have ax: "\<bar>x\<bar> * 2 ^ (k + j) = of_int (\<bar>n\<bar> * 2 ^ j)"
  proof -
    have "\<bar>x\<bar> * 2 ^ (k + j) = \<bar>x * 2 ^ (k + j)\<bar>" by (simp add: abs_mult)
    also have "\<dots> = of_int (\<bar>n\<bar> * 2 ^ j)" unfolding xs by (simp add: abs_mult)
    finally show ?thesis .
  qed
  have lo: "2 ^ 52 \<le> \<bar>x\<bar> * 2 ^ (k + j)"
    unfolding ax using j(1) by (metis of_int_le_iff of_int_numeral of_int_power)
  have hi: "\<bar>x\<bar> * 2 ^ (k + j) < 2 ^ 53"
    unfolding ax using j(2) by (metis of_int_less_iff of_int_numeral of_int_power)
  have "dbl x = of_int (nearest_even (x * 2 ^ (k + j))) / 2 ^ (k + j)"
    using lo hi by (rule dbl_scaled)
  also have "\<dots> = of_int (n * 2 ^ j) / 2 ^ (k + j)"
    by (simp only: xs nearest_even_of_int)
  also have "\<dots> = x"
    using xs by (metis nonzero_mult_div_cancel_right power_not_zero zero_neq_numeral)
  finally show ?thesis .
qed

lemma dbl_exact_value:
  fixes k :: nat and n :: int
  assumes "x = y" and "y * 2 ^ k = of_int n" and "\<bar>n\<bar> < 2 ^ 53"
  shows "dbl x = y"
  unfolding assms(1) using assms(2,3) by (rule dbl_exact)

lemma dbl_rounded_value:
  fixes k :: nat
  assumes "x = z" and "2 ^ 52 \<le> \<bar>z\<bar> * 2 ^ k" and "\<bar>z\<bar> * 2 ^ k < 2 ^ 53"
    and "nearest_even (z * 2 ^ k) = n" and "y = of_int n / 2 ^ k"
  shows "dbl x = y"
  unfolding assms(1,5) assms(4) [symmetric] using assms(2,3) by (rule dbl_scaled)

lemma dbl_values [simp]:
  "dbl (- (3 / 2)) = - (3 / 2)"
  "dbl (- 1) = - 1"
  "dbl (- (3 / 4)) = - (3 / 4)"
  "dbl (- (1 / 2)) = - (1 / 2)"
  "dbl (- (3 / 8)) = - (3 / 8)"
  "dbl (- (1 / 4)) = - (1 / 4)"
  "dbl (- (3 / 16)) = - (3 / 16)"
  "dbl (- (1 / 8)) = - (1 / 8)"
  "dbl 0 = 0"
  "dbl (1 / 16) = 1 / 16"
  "dbl (1 / 8) = 1 / 8"
  "dbl (3 / 16) = 3 / 16"
  "dbl (1 / 4) = 1 / 4"
  "dbl (5 / 16) = 5 / 16"
  "dbl (3 / 8) = 3 / 8"
  "dbl (7 / 16) = 7 / 16"
  "dbl (1 / 2) = 1 / 2"
  "dbl (9 / 16) = 9 / 16"
  "dbl (5 / 8) = 5 / 8"
  "dbl (11 / 16) = 11 / 16"
  "dbl (3 / 4) = 3 / 4"
  "dbl (13 / 16) = 13 / 16"
  "dbl (7 / 8) = 7 / 8"
  "dbl (15 / 16) = 15 / 16"
  "dbl 1 = 1"
  "dbl (5 / 4) = 5 / 4"
  "dbl (11 / 8) = 11 / 8"
  "dbl (3 / 2) = 3 / 2"
  "dbl (25 / 16) = 25 / 16"
  "dbl (13 / 8) = 13 / 8"
  "dbl (7 / 4) = 7 / 4"
  "dbl 2 = 2"
  "dbl 3 = 3"
  "dbl 4 = 4"
  "dbl 5 = 5"
  "dbl 6 = 6"
  "dbl 7 = 7"
  "dbl 8 = 8"
  "dbl 9 = 9"
  "dbl 10 = 10"
  "dbl 11 = 11"
  "dbl 12 = 12"
  "dbl 13 = 13"
  "dbl 14 = 14"
  "dbl 16 = 16"
  apply (rule dbl_exact [where k = 1 and n = "- 3"], simp, simp)
  apply (rule dbl_exact [where k = 0 and n = "- 1"], simp, simp)
  apply (rule dbl_exact [where k = 2 and n = "- 3"], simp, simp)
  apply (rule dbl_exact [where k = 1 and n = "- 1"], simp, simp)
  apply (rule dbl_exact [where k = 3 and n = "- 3"], simp, simp)
  apply (rule dbl_exact [where k = 2 and n = "- 1"], simp, simp)
  apply (rule dbl_exact [where k = 4 and n = "- 3"], simp, simp)
  apply (rule dbl_exact [where k = 3 and n = "- 1"], simp, simp)
  apply (rule dbl_exact [where k = 0 and n = "0"], simp, simp)
  apply (rule dbl_exact [where k = 4 and n = "1"], simp, simp)
  apply (rule dbl_exact [where k = 3 and n = "1"], simp, simp)
  apply (rule dbl_exact [where k = 4 and n = "3"], simp, simp)
  apply (rule dbl_exact [where k = 2 and n = "1"], simp, simp)
  apply (rule dbl_exact [where k = 4 and n = "5"], simp, simp)
  apply (rule dbl_exact [where k = 3 and n = "3"], simp, simp)
  apply (rule dbl_exact [where k = 4 and n = "7"], simp, simp)
  apply (rule dbl_exact [where k = 1 and n = "1"], simp, simp)
  apply (rule dbl_exact [where k = 4 and n = "9"], simp, simp)
  apply (rule dbl_exact [where k = 3 and n = "5"], simp, simp)
  apply (rule dbl_exact [where k = 4 and n = "11"], simp, simp)
  apply (rule dbl_exact [where k = 2 and n = "3"], simp, simp)
  apply (rule dbl_exact [where k = 4 and n = "13"], simp, simp)
  apply (rule dbl_exact [where k = 3 and n = "7"], simp, simp)
  apply (rule dbl_exact [where k = 4 and n = "15"], simp, simp)
  apply (rule dbl_exact [where k = 0 and n = "1"], simp, simp)
  apply (rule dbl_exact [where k = 2 and n = "5"], simp, simp)
  apply (rule dbl_exact [where k = 3 and n = "11"], simp, simp)
  apply (rule dbl_exact [where k = 1 and n = "3"], simp, simp)
  apply (rule dbl_exact [where k = 4 and n = "25"], simp, simp)
  apply (rule dbl_exact [where k = 3 and n = "13"], simp, simp)
  apply (rule dbl_exact [where k = 2 and n = "7"], simp, simp)
  apply (rule dbl_exact [where k = 0 and n = "2"], simp, simp)
  apply (rule dbl_exact [where k = 0 and n = "3"], simp, simp)
  apply (rule dbl_exact [where k = 0 and n = "4"], simp, simp)
  apply (rule dbl_exact [where k = 0 and n = "5"], simp, simp)
  apply (rule dbl_exact [where k = 0 and n = "6"], simp, simp)
  apply (rule dbl_exact [where k = 0 and n = "7"], simp, simp)
  apply (rule dbl_exact [where k = 0 and n = "8"], simp, simp)
  apply (rule dbl_exact [where k = 0 and n = "9"], simp, simp)
  apply (rule dbl_exact [where k = 0 and n = "10"], simp, simp)
  apply (rule dbl_exact [where k = 0 and n = "11"], simp, simp)
  apply (rule dbl_exact [where k = 0 and n = "12"], simp, simp)
  apply (rule dbl_exact [where k = 0 and n = "13"], simp, simp)
  apply (rule dbl_exact [where k = 0 and n = "14"], simp, simp)
  apply (rule dbl_exact [where k = 0 and n = "16"], simp, simp)
  done

text \<open>The cast to \<^verbatim>\<open>int\<close> and \<open>fmod\<close> by 1, in terms of sign and floor.\<close>

lemma c_int_sgn_floor: "real_of_int (c_int v) = sgn v * real_of_int \<lfloor>\<bar>v\<bar>\<rfloor>"
proof (cases "0 \<le> v")
  case True
  then show ?thesis by (cases "v = 0") (simp_all add: c_int_def sgn_if)
next
  case False
  then have "\<lfloor>\<bar>v\<bar>\<rfloor> = - \<lceil>v\<rceil>" by (simp add: ceiling_def)
  then show ?thesis using False by (simp add: c_int_def sgn_if)
qed

lemma fmod_one_sgn_floor: "fmod t 1 = t - sgn t * real_of_int \<lfloor>\<bar>t\<bar>\<rfloor>"
  by (simp add: fmod_def c_int_sgn_floor)

section \<open>The layout: alignment arithmetic\<close>

lemma c_int_of_int [simp]: "c_int (real_of_int n) = n"
  by (simp add: c_int_def)










section \<open>The layout: what the loops leave alone\<close>

lemma same_settings_refl: "same_settings rh rh"
  by (simp add: same_settings_def)

lemma coarse_step_settings:
  "coarse_step l (b, rh) = (e, (b', rh')) \<Longrightarrow> same_settings rh0 rh \<Longrightarrow> same_settings rh0 rh'"
  by (auto simp: coarse_step_def same_settings_def Let_def split: if_splits)

lemma coarse_loop_settings:
  assumes "for_each ls coarse_step (b, rh) = (e, (b', rh'))" and "same_settings rh0 rh"
  shows "same_settings rh0 rh'"
proof -
  have "same_settings rh0 (snd (b', rh'))"
  proof (rule for_each_invariant [where I = "\<lambda>st. same_settings rh0 (snd st)", OF assms(1)])
    show "same_settings rh0 (snd (b, rh))" using assms(2) by simp
  next
    fix x t e' t'
    assume "same_settings rh0 (snd t)" and "coarse_step x t = (e', t')"
    then show "same_settings rh0 (snd t')"
      using coarse_step_settings [of x "fst t" "snd t" e' "fst t'" "snd t'" rh0] by simp
  qed
  then show ?thesis by simp
qed

lemma closing_loops_settings:
  assumes "same_settings rh0 rh"
  shows "same_settings rh0 (closing_loops rh)"
proof -
  have 1: "same_settings rh0 (fold relative_step xs rh)" for xs
    by (rule fold_invariant [where I = "same_settings rh0", OF assms])
       (simp add: same_settings_def relative_step_def)
  have 2: "same_settings rh0 (fold normalized_step ys (fold relative_step xs rh))" for xs ys
    by (rule fold_invariant [where I = "same_settings rh0", OF 1])
       (simp add: same_settings_def normalized_step_def Let_def)
  show ?thesis
    unfolding closing_loops_def
    by (rule fold_invariant [where I = "same_settings rh0", OF 2])
       (simp add: same_settings_def base_level_step_def Let_def)
qed

lemma with_base_extent_settings: "same_settings rh (with_base_extent rh)"
  by (simp add: same_settings_def with_base_extent_def)

lemma record_finest_settings: "same_settings rh (record_finest n b rh)"
  by (simp add: same_settings_def record_finest_def)

lemma same_settings_trans:
  "same_settings a b \<Longrightarrow> same_settings b c \<Longrightarrow> same_settings a c"
  by (simp add: same_settings_def)

text \<open>A successful run of the constructor, taken apart.\<close>

lemma if_InrD: "(if c then Inl e else x) = Inr r \<Longrightarrow> \<not> c \<and> x = Inr r"
  by (cases c) simp_all

lemma build_levels_InrD:
  assumes "build_levels rh0 = Inr rh"
  obtains b bfin rh3 where
    "rh_levelmin rh0 \<le> rh_levelmax rh0" "rh_levelmax rh0 < 32"
    "b = finest_box (rh_align_top rh0) (u32 (shl1 (rh_levelmax rh0 - rh_levelmin rh0 + 1)))
           (shl1 (rh_levelmax rh0)) (rh_x0ref rh0) (rh_lxref rh0)"
    "\<not> degenerate b"
    "for_each (rev [Suc (rh_levelmin rh0)..<Suc (nat (u32 (int (rh_levelmax rh0) - 1)))]) coarse_step
       (b, record_finest (shl1 (rh_levelmax rh0)) b (with_base_extent rh0)) = (None, (bfin, rh3))"
    "rh = closing_loops rh3"
proof -
  let ?lmin = "rh_levelmin rh0" and ?lmax = "rh_levelmax rh0"
  define b where "b = finest_box (rh_align_top rh0) (u32 (shl1 (?lmax - ?lmin + 1)))
           (shl1 ?lmax) (rh_x0ref rh0) (rh_lxref rh0)"
  define loop where "loop = for_each (rev [Suc ?lmin..<Suc (nat (u32 (int ?lmax - 1)))]) coarse_step
       (b, record_finest (shl1 ?lmax) b (with_base_extent rh0))"
  have eq: "build_levels rh0 =
      (if \<not> ?lmin < Suc ?lmax then Inl OutOfBounds
       else if 32 \<le> ?lmax then Inl BadShift
       else if rh_align_top rh0 \<and> 32 \<le> ?lmax - ?lmin + 1 then Inl BadShift
       else if degenerate b then Inl (LOGERR (il b) (ir b) (jl b) (jr b) (kl b) (kr b))
       else case loop of (Some e, _) \<Rightarrow> Inl e | (None, (_, rh3)) \<Rightarrow> Inr (closing_loops rh3))"
    unfolding build_levels_def Let_def b_def loop_def ..
  note r1 = if_InrD [OF assms [unfolded eq]]
  note r2 = if_InrD [OF r1 [THEN conjunct2]]
  note r3 = if_InrD [OF r2 [THEN conjunct2]]
  note r4 = if_InrD [OF r3 [THEN conjunct2]]
  have c1: "?lmin \<le> ?lmax" using r1 [THEN conjunct1] by simp
  have c2: "?lmax < 32" using r2 [THEN conjunct1] by simp
  have c4: "\<not> degenerate b" by (rule r4 [THEN conjunct1])
  have eq': "(case loop of (Some e, _) \<Rightarrow> Inl e | (None, (_, rh3)) \<Rightarrow> Inr (closing_loops rh3)) = Inr rh"
    by (rule r4 [THEN conjunct2])
  obtain e bfin rh3 where l: "loop = (e, (bfin, rh3))"
    by (cases loop) auto
  have "e = None \<and> rh = closing_loops rh3"
    using eq' unfolding l by (cases e) simp_all
  then show ?thesis
    using that [of b bfin rh3] c1 c2 c4 l b_def loop_def by simp
qed

lemma after_shift_levels:
  "rh_levelmin (after_shift cf x) = cf_levelmin cf"
  "rh_levelmax (after_shift cf x) = cf_levelmax cf"
  "rh_align_top (after_shift cf x) = cf_align_top cf"
  "rh_padding (after_shift cf x) = cf_padding cf"
  by (simp_all add: after_shift_def Let_def split: prod.splits)

lemma refinement_hierarchy_new_InrD:
  assumes "refinement_hierarchy_new cf = Inr rh"
  obtains x0ref where
    "region_origin cf = Inr x0ref" "build_levels (after_shift cf x0ref) = Inr rh"
proof -
  note r1 = if_InrD [OF assms [unfolded refinement_hierarchy_new_def]]
  obtain x0ref where ro: "region_origin cf = Inr x0ref"
    using r1 [THEN conjunct2] by (cases "region_origin cf") simp_all
  have "(if 32 \<le> cf_levelmin cf then Inl BadShift else build_levels (after_shift cf x0ref)) = Inr rh"
    using r1 [THEN conjunct2] unfolding ro by simp
  then have "build_levels (after_shift cf x0ref) = Inr rh"
    by (rule if_InrD [THEN conjunct2])
  then show ?thesis using that ro by simp
qed

lemma build_levels_settings:
  assumes "build_levels rh0 = Inr rh"
  shows "same_settings rh0 rh"
proof -
  from assms obtain b bfin rh3 where
    loop: "for_each (rev [Suc (rh_levelmin rh0)..<Suc (nat (u32 (int (rh_levelmax rh0) - 1)))]) coarse_step
       (b, record_finest (shl1 (rh_levelmax rh0)) b (with_base_extent rh0)) = (None, (bfin, rh3))"
    and rh: "rh = closing_loops rh3"
    by (rule build_levels_InrD)
  have "same_settings rh0 (record_finest (shl1 (rh_levelmax rh0)) b (with_base_extent rh0))"
    by (rule same_settings_trans [OF with_base_extent_settings record_finest_settings])
  then have "same_settings rh0 rh3"
    by (rule coarse_loop_settings [OF loop])
  then show ?thesis
    unfolding rh by (rule closing_loops_settings)
qed

section \<open>The loop over the coarser levels\<close>

lemma coarse_step_run:
  assumes "rh_levelmin rh = lmin" "rh_levelmax rh = lmax" "rh_padding rh = pad"
    and "rh_align_top rh = atop" and "lmin < l" "l \<le> lmax" "lmax < 32"
    and "b' = align_box atop (u32 (shl1 (l - lmin))) (coarser_box pad b)"
  shows "coarse_step l (b, rh) =
           (if degenerate b'
            then (Some (LOGERR (il b') (ir b') (jl b') (jr b') (kl b') (kr b')), (b', rh))
            else (None, (b', rh\<lparr>
                     rh_oax := (rh_oax rh)[l := u32 (il b')],
                     rh_oay := (rh_oay rh)[l := u32 (jl b')],
                     rh_oaz := (rh_oaz rh)[l := u32 (kl b')],
                     rh_nx := (rh_nx rh)[l := u32 (ir b' - il b')],
                     rh_ny := (rh_ny rh)[l := u32 (jr b' - jl b')],
                     rh_nz := (rh_nz rh)[l := u32 (kr b' - kl b')]\<rparr>)))"
proof -
  have "l - lmin < 32"
    using assms(6,7) by arith
  then have "\<not> (rh_align_top rh \<and> 32 \<le> l - rh_levelmin rh)"
    unfolding assms(1) by simp
  moreover have "l < Suc (rh_levelmax rh)"
    unfolding assms(2) using assms(6) by simp
  ultimately show ?thesis
    unfolding coarse_step_def Let_def prod.case assms(8) assms(1-4) [symmetric]
    by (simp only: if_False if_True not_True_eq_False not_False_eq_True)
qed

lemma coarse_loop_run:
  assumes "rh_levelmin rh = lmin" "rh_levelmax rh = lmax" "rh_padding rh = pad"
    and "rh_align_top rh = atop" and "lmax < 32" and "n < lmax - lmin"
    and "\<forall>k. 1 \<le> k \<and> k \<le> n \<longrightarrow> \<not> degenerate (box_down atop pad lmin lmax b k)"
  shows "\<exists>rh'. for_each (map (\<lambda>k. lmax - k) [1..<Suc n]) coarse_step (b, rh)
                 = (None, (box_down atop pad lmin lmax b n, rh')) \<and> same_settings rh rh'"
  using assms(6,7)
proof (induction n)
  case 0
  show ?case by (simp add: same_settings_refl)
next
  case (Suc n)
  let ?B = "box_down atop pad lmin lmax b"
  have "\<forall>k. 1 \<le> k \<and> k \<le> n \<longrightarrow> \<not> degenerate (?B k)"
    using Suc.prems(2) by (simp del: box_down.simps)
  moreover have "n < lmax - lmin" using Suc.prems(1) by simp
  ultimately obtain rh' where
    run: "for_each (map (\<lambda>k. lmax - k) [1..<Suc n]) coarse_step (b, rh) = (None, (?B n, rh'))"
    and same: "same_settings rh rh'"
    using Suc.IH by blast
  have set': "rh_levelmin rh' = lmin" "rh_levelmax rh' = lmax" "rh_padding rh' = pad"
    "rh_align_top rh' = atop"
    using same assms(1-4) by (simp_all add: same_settings_def)
  have lv: "lmin < lmax - Suc n" "lmax - Suc n \<le> lmax"
    using Suc.prems(1) by simp_all
  have nd: "\<not> degenerate (?B (Suc n))"
    using Suc.prems(2) by (simp del: box_down.simps)
  have bs: "?B (Suc n) = align_box atop (u32 (shl1 (lmax - Suc n - lmin))) (coarser_box pad (?B n))"
    by simp
  have step: "coarse_step (lmax - Suc n) (?B n, rh') = (None, (?B (Suc n), rh'\<lparr>
                     rh_oax := (rh_oax rh')[lmax - Suc n := u32 (il (?B (Suc n)))],
                     rh_oay := (rh_oay rh')[lmax - Suc n := u32 (jl (?B (Suc n)))],
                     rh_oaz := (rh_oaz rh')[lmax - Suc n := u32 (kl (?B (Suc n)))],
                     rh_nx := (rh_nx rh')[lmax - Suc n := u32 (ir (?B (Suc n)) - il (?B (Suc n)))],
                     rh_ny := (rh_ny rh')[lmax - Suc n := u32 (jr (?B (Suc n)) - jl (?B (Suc n)))],
                     rh_nz := (rh_nz rh')[lmax - Suc n := u32 (kr (?B (Suc n)) - kl (?B (Suc n)))]\<rparr>))"
    (is "_ = (None, (_, ?rh''))")
    using coarse_step_run [OF set' lv assms(5) bs] nd by (simp del: box_down.simps)
  have same'': "same_settings rh ?rh''"
    using same by (simp add: same_settings_def)
  have "for_each (map (\<lambda>k. lmax - k) [1..<Suc (Suc n)]) coarse_step (b, rh)
          = (None, (?B (Suc n), ?rh''))"
    using run step by (simp add: for_each_append and_then_def del: box_down.simps)
  then show ?case using same'' by blast
qed

lemma coarse_loop_fail:
  assumes "rh_levelmin rh = lmin" "rh_levelmax rh = lmax" "rh_padding rh = pad"
    and "rh_align_top rh = atop" and "lmax < 32" and "n < lmax - lmin" and "1 \<le> n"
    and "\<forall>k. 1 \<le> k \<and> k < n \<longrightarrow> \<not> degenerate (box_down atop pad lmin lmax b k)"
    and "degenerate (box_down atop pad lmin lmax b n)"
  shows "\<exists>st. for_each (map (\<lambda>k. lmax - k) [1..<lmax - lmin]) coarse_step (b, rh)
                 = (Some (LOGERR (il (box_down atop pad lmin lmax b n)) (ir (box_down atop pad lmin lmax b n))
                      (jl (box_down atop pad lmin lmax b n)) (jr (box_down atop pad lmin lmax b n))
                      (kl (box_down atop pad lmin lmax b n)) (kr (box_down atop pad lmin lmax b n))), st)"
proof -
  let ?B = "box_down atop pad lmin lmax b"
  obtain m where m: "n = Suc m" using assms(7) by (cases n) simp_all
  have "\<forall>k. 1 \<le> k \<and> k \<le> m \<longrightarrow> \<not> degenerate (?B k)"
    using assms(8) m by (simp del: box_down.simps)
  moreover have "m < lmax - lmin" using assms(6) m by simp
  ultimately obtain rh' where
    run: "for_each (map (\<lambda>k. lmax - k) [1..<Suc m]) coarse_step (b, rh) = (None, (?B m, rh'))"
    and same: "same_settings rh rh'"
    using coarse_loop_run [OF assms(1-5), of m b] by blast
  have set': "rh_levelmin rh' = lmin" "rh_levelmax rh' = lmax" "rh_padding rh' = pad"
    "rh_align_top rh' = atop"
    using same assms(1-4) by (simp_all add: same_settings_def)
  have lv: "lmin < lmax - n" "lmax - n \<le> lmax"
    using assms(6) by simp_all
  have bs: "?B n = align_box atop (u32 (shl1 (lmax - n - lmin))) (coarser_box pad (?B m))"
    unfolding m by simp
  have step: "coarse_step (lmax - n) (?B m, rh') =
      (Some (LOGERR (il (?B n)) (ir (?B n)) (jl (?B n)) (jr (?B n)) (kl (?B n)) (kr (?B n))), (?B n, rh'))"
    using coarse_step_run [OF set' lv assms(5) bs] assms(9) by (simp del: box_down.simps)
  have split: "[1..<lmax - lmin] = [1..<Suc m] @ n # [Suc n..<lmax - lmin]"
  proof -
    have "[1..<n + (lmax - lmin - n)] = [1..<n] @ [n..<n + (lmax - lmin - n)]"
      by (rule upt_add_eq_append) (use assms(7) in simp)
    moreover have "n + (lmax - lmin - n) = lmax - lmin"
      using assms(6) by simp
    ultimately have "[1..<lmax - lmin] = [1..<n] @ [n..<lmax - lmin]"
      by simp
    moreover have "[n..<lmax - lmin] = n # [Suc n..<lmax - lmin]"
      using assms(6) by (simp add: upt_conv_Cons)
    ultimately show ?thesis using m by simp
  qed
  show ?thesis
    unfolding split map_append for_each_append run
    using step m by (simp add: and_then_def del: box_down.simps)
qed

lemma coarse_levels_eq:
  assumes "1 \<le> lmax" "lmax < 32"
  shows "rev [Suc lmin..<Suc (nat (u32 (int lmax - 1)))] = map (\<lambda>k. lmax - k) [1..<lmax - lmin]"
proof -
  have "u32 (int lmax - 1) = int lmax - 1"
    using assms by (intro u32_id) simp_all
  then have top: "Suc (nat (u32 (int lmax - 1))) = lmax"
    using assms by simp
  show ?thesis
    unfolding top
    by (rule nth_equalityI) (auto simp: rev_nth)
qed

section \<open>The constructor: success and failure\<close>

lemma build_levels_unfold:
  assumes "rh_levelmin rh0 \<le> rh_levelmax rh0" and "rh_levelmax rh0 < 31"
    and "b = finest_box (rh_align_top rh0) (u32 (shl1 (rh_levelmax rh0 - rh_levelmin rh0 + 1)))
           (shl1 (rh_levelmax rh0)) (rh_x0ref rh0) (rh_lxref rh0)"
  shows "build_levels rh0 =
     (if degenerate b then Inl (LOGERR (il b) (ir b) (jl b) (jr b) (kl b) (kr b))
      else case for_each (rev [Suc (rh_levelmin rh0)..<Suc (nat (u32 (int (rh_levelmax rh0) - 1)))])
                  coarse_step (b, record_finest (shl1 (rh_levelmax rh0)) b (with_base_extent rh0)) of
             (Some e, _) \<Rightarrow> Inl e
           | (None, (_, rh3)) \<Rightarrow> Inr (closing_loops rh3))"
proof -
  let ?lmin = "rh_levelmin rh0" and ?lmax = "rh_levelmax rh0"
  have c1: "(\<not> ?lmin < Suc ?lmax) = False" using assms(1) by simp
  have c2: "(32 \<le> ?lmax) = False" using assms(2) by simp
  have "\<not> 32 \<le> ?lmax - ?lmin + 1" using assms(2) by arith
  then have c3: "(rh_align_top rh0 \<and> 32 \<le> ?lmax - ?lmin + 1) = False" by blast
  show ?thesis
    unfolding build_levels_def Let_def c1 c2 c3 if_False assms(3) ..
qed

lemma start_settings:
  "same_settings rh0 (record_finest n b (with_base_extent rh0))"
  by (rule same_settings_trans [OF with_base_extent_settings record_finest_settings])

lemma build_levels_success:
  assumes "rh_levelmin rh0 \<le> rh_levelmax rh0" and "1 \<le> rh_levelmax rh0"
    and "rh_levelmax rh0 < 31"
    and "b = finest_box (rh_align_top rh0) (u32 (shl1 (rh_levelmax rh0 - rh_levelmin rh0 + 1)))
           (shl1 (rh_levelmax rh0)) (rh_x0ref rh0) (rh_lxref rh0)"
    and "\<forall>k. k = 0 \<or> k < rh_levelmax rh0 - rh_levelmin rh0 \<longrightarrow>
           \<not> degenerate (box_down (rh_align_top rh0) (rh_padding rh0) (rh_levelmin rh0)
                           (rh_levelmax rh0) b k)"
  shows "\<exists>rh. build_levels rh0 = Inr rh"
proof -
  let ?lmin = "rh_levelmin rh0" and ?lmax = "rh_levelmax rh0"
  let ?B = "box_down (rh_align_top rh0) (rh_padding rh0) ?lmin ?lmax b"
  let ?start = "record_finest (shl1 ?lmax) b (with_base_extent rh0)"
  have s: "same_settings rh0 ?start" by (rule start_settings)
  have set': "rh_levelmin ?start = ?lmin" "rh_levelmax ?start = ?lmax"
    "rh_padding ?start = rh_padding rh0" "rh_align_top ?start = rh_align_top rh0"
    using s by (simp_all add: same_settings_def)
  have nd: "\<not> degenerate b" using assms(5) [rule_format, of 0] by simp
  have lv: "rev [Suc ?lmin..<Suc (nat (u32 (int ?lmax - 1)))] = map (\<lambda>k. ?lmax - k) [1..<?lmax - ?lmin]"
    by (rule coarse_levels_eq) (use assms(2,3) in simp_all)
  have "\<exists>bfin rh3. for_each (map (\<lambda>k. ?lmax - k) [1..<?lmax - ?lmin]) coarse_step (b, ?start)
          = (None, (bfin, rh3))"
  proof (cases "?lmax - ?lmin")
    case 0
    then show ?thesis by simp
  next
    case (Suc n)
    have "\<forall>k. 1 \<le> k \<and> k \<le> n \<longrightarrow> \<not> degenerate (?B k)"
      using assms(5) Suc by (simp del: box_down.simps)
    moreover have "n < ?lmax - ?lmin" using Suc by simp
    moreover have "?lmax < 32" using assms(3) by simp
    ultimately obtain rh' where
      "for_each (map (\<lambda>k. ?lmax - k) [1..<Suc n]) coarse_step (b, ?start) = (None, (?B n, rh'))"
      using coarse_loop_run [OF set', of n b] by blast
    then show ?thesis unfolding Suc by blast
  qed
  then obtain bfin rh3 where
    "for_each (map (\<lambda>k. ?lmax - k) [1..<?lmax - ?lmin]) coarse_step (b, ?start) = (None, (bfin, rh3))"
    by blast
  then have "build_levels rh0 = Inr (closing_loops rh3)"
    unfolding build_levels_unfold [OF assms(1,3,4)] lv using nd by simp
  then show ?thesis by blast
qed

lemma build_levels_fail:
  assumes "rh_levelmin rh0 \<le> rh_levelmax rh0" and "rh_levelmax rh0 < 31"
    and "b = finest_box (rh_align_top rh0) (u32 (shl1 (rh_levelmax rh0 - rh_levelmin rh0 + 1)))
           (shl1 (rh_levelmax rh0)) (rh_x0ref rh0) (rh_lxref rh0)"
    and "k = 0 \<or> k < rh_levelmax rh0 - rh_levelmin rh0"
    and "degenerate (box_down (rh_align_top rh0) (rh_padding rh0) (rh_levelmin rh0)
                           (rh_levelmax rh0) b k)"
  shows "\<exists>a1 a2 a3 a4 a5 a6. build_levels rh0 = Inl (BoundingBoxError a1 a2 a3 a4 a5 a6)"
proof -
  let ?lmin = "rh_levelmin rh0" and ?lmax = "rh_levelmax rh0"
  let ?B = "box_down (rh_align_top rh0) (rh_padding rh0) ?lmin ?lmax b"
  let ?start = "record_finest (shl1 ?lmax) b (with_base_extent rh0)"
  let ?P = "\<lambda>k. (k = 0 \<or> k < ?lmax - ?lmin) \<and> degenerate (?B k)"
  have "\<exists>n. ?P n" using assms(4,5) by blast
  then obtain n where n: "?P n" and least: "\<forall>m<n. \<not> ?P m"
    unfolding exists_least_iff [of ?P] by blast
  show ?thesis
  proof (cases "n = 0")
    case True
    then have "degenerate b" using n by simp
    then show ?thesis
      unfolding build_levels_unfold [OF assms(1,2,3)] by (simp add: LOGERR_def)
  next
    case False
    then have n1: "1 \<le> n" "n < ?lmax - ?lmin" using n by simp_all
    have nd: "\<not> degenerate b" using least [rule_format, of 0] False by simp
    have before: "\<forall>k. 1 \<le> k \<and> k < n \<longrightarrow> \<not> degenerate (?B k)"
      using least n1 by (auto simp del: box_down.simps)
    have s: "same_settings rh0 ?start" by (rule start_settings)
    have set': "rh_levelmin ?start = ?lmin" "rh_levelmax ?start = ?lmax"
      "rh_padding ?start = rh_padding rh0" "rh_align_top ?start = rh_align_top rh0"
      using s by (simp_all add: same_settings_def)
    have lmax32: "?lmax < 32" using assms(2) by simp
    have lv: "rev [Suc ?lmin..<Suc (nat (u32 (int ?lmax - 1)))] = map (\<lambda>k. ?lmax - k) [1..<?lmax - ?lmin]"
      by (rule coarse_levels_eq) (use n1 assms(2) in simp_all)
    obtain st where
      "for_each (map (\<lambda>k. ?lmax - k) [1..<?lmax - ?lmin]) coarse_step (b, ?start)
         = (Some (LOGERR (il (?B n)) (ir (?B n)) (jl (?B n)) (jr (?B n)) (kl (?B n)) (kr (?B n))), st)"
      using coarse_loop_fail [OF set' lmax32 n1(2) n1(1) before] n by blast
    then show ?thesis
      unfolding build_levels_unfold [OF assms(1,2,3)] lv using nd
      by (simp add: LOGERR_def del: box_down.simps)
  qed
qed

lemma refinement_hierarchy_new_unfold:
  assumes "\<not> (cf_ref_offset cf \<noteq> None \<and> cf_ref_center cf \<noteq> None)"
    and "region_origin cf = Inr x0ref" and "cf_levelmin cf < 32"
  shows "refinement_hierarchy_new cf = build_levels (after_shift cf x0ref)"
proof -
  have c1: "(cf_ref_offset cf \<noteq> None \<and> cf_ref_center cf \<noteq> None) = False"
    using assms(1) by blast
  have c2: "(32 \<le> cf_levelmin cf) = False"
    using assms(3) by simp
  show ?thesis
    unfolding refinement_hierarchy_new_def c1 if_False assms(2) sum.case c2 ..
qed

section \<open>The shift\<close>

lemma after_shift_fields:
  assumes "cf_ref_extent cf = (lx, ly, lz)"
  shows "rh_xshift (after_shift cf (x0, y0, z0)) =
           (shift_axis (cf_levelmin cf) (cf_levelmax cf) (cf_no_shift cf = Some True)
              (cf_force_shift cf = Some True) (u32 (shl1 (cf_levelmin cf))) (region_center x0 lx),
            shift_axis (cf_levelmin cf) (cf_levelmax cf) (cf_no_shift cf = Some True)
              (cf_force_shift cf = Some True) (u32 (shl1 (cf_levelmin cf))) (region_center y0 ly),
            shift_axis (cf_levelmin cf) (cf_levelmax cf) (cf_no_shift cf = Some True)
              (cf_force_shift cf = Some True) (u32 (shl1 (cf_levelmin cf))) (region_center z0 lz))"
    and "rh_x0ref (after_shift cf (x0, y0, z0)) =
           (shifted_origin x0 (fst (rh_xshift (after_shift cf (x0, y0, z0)))) (u32 (shl1 (cf_levelmin cf))),
            shifted_origin y0 (fst (snd (rh_xshift (after_shift cf (x0, y0, z0))))) (u32 (shl1 (cf_levelmin cf))),
            shifted_origin z0 (snd (snd (rh_xshift (after_shift cf (x0, y0, z0))))) (u32 (shl1 (cf_levelmin cf))))"
    and "rh_lxref (after_shift cf (x0, y0, z0)) = (lx, ly, lz)"
    and "rh_cf (after_shift cf (x0, y0, z0)) =
           cf\<lparr>cf_shift_x := Some (fst (rh_xshift (after_shift cf (x0, y0, z0)))),
              cf_shift_y := Some (fst (snd (rh_xshift (after_shift cf (x0, y0, z0))))),
              cf_shift_z := Some (snd (snd (rh_xshift (after_shift cf (x0, y0, z0)))))\<rparr>"
proof -
  have b: "(case v of None \<Rightarrow> False | Some w \<Rightarrow> w) = (v = Some True)" for v :: "bool option"
    by (cases v) simp_all
  show "rh_xshift (after_shift cf (x0, y0, z0)) =
           (shift_axis (cf_levelmin cf) (cf_levelmax cf) (cf_no_shift cf = Some True)
              (cf_force_shift cf = Some True) (u32 (shl1 (cf_levelmin cf))) (region_center x0 lx),
            shift_axis (cf_levelmin cf) (cf_levelmax cf) (cf_no_shift cf = Some True)
              (cf_force_shift cf = Some True) (u32 (shl1 (cf_levelmin cf))) (region_center y0 ly),
            shift_axis (cf_levelmin cf) (cf_levelmax cf) (cf_no_shift cf = Some True)
              (cf_force_shift cf = Some True) (u32 (shl1 (cf_levelmin cf))) (region_center z0 lz))"
    unfolding after_shift_def Let_def prod.case assms b by simp
  show "rh_x0ref (after_shift cf (x0, y0, z0)) =
           (shifted_origin x0 (fst (rh_xshift (after_shift cf (x0, y0, z0)))) (u32 (shl1 (cf_levelmin cf))),
            shifted_origin y0 (fst (snd (rh_xshift (after_shift cf (x0, y0, z0))))) (u32 (shl1 (cf_levelmin cf))),
            shifted_origin z0 (snd (snd (rh_xshift (after_shift cf (x0, y0, z0))))) (u32 (shl1 (cf_levelmin cf))))"
    unfolding after_shift_def Let_def prod.case assms b by simp
  show "rh_lxref (after_shift cf (x0, y0, z0)) = (lx, ly, lz)"
    unfolding after_shift_def Let_def prod.case assms b by simp
  show "rh_cf (after_shift cf (x0, y0, z0)) =
           cf\<lparr>cf_shift_x := Some (fst (rh_xshift (after_shift cf (x0, y0, z0)))),
              cf_shift_y := Some (fst (snd (rh_xshift (after_shift cf (x0, y0, z0))))),
              cf_shift_z := Some (snd (snd (rh_xshift (after_shift cf (x0, y0, z0)))))\<rparr>"
    unfolding after_shift_def Let_def prod.case assms b by simp
qed


lemma layout_shift:
  assumes new: "refinement_hierarchy_new cf = Inr rh"
    and ro: "region_origin cf = Inr (x0, y0, z0)"
    and ext: "cf_ref_extent cf = (lx, ly, lz)"
    and sh: "rh_xshift rh = (sx, sy, sz)"
  shows "sx = shift_axis (cf_levelmin cf) (cf_levelmax cf) (cf_no_shift cf = Some True)
              (cf_force_shift cf = Some True) (2 ^ cf_levelmin cf) (region_center x0 lx)"
    and "sy = shift_axis (cf_levelmin cf) (cf_levelmax cf) (cf_no_shift cf = Some True)
              (cf_force_shift cf = Some True) (2 ^ cf_levelmin cf) (region_center y0 ly)"
    and "sz = shift_axis (cf_levelmin cf) (cf_levelmax cf) (cf_no_shift cf = Some True)
              (cf_force_shift cf = Some True) (2 ^ cf_levelmin cf) (region_center z0 lz)"
    and "cf_shift_x (rh_cf rh) = Some sx \<and> cf_shift_y (rh_cf rh) = Some sy
           \<and> cf_shift_z (rh_cf rh) = Some sz"
    and "rh_x0ref rh = (shifted_origin x0 sx (2 ^ cf_levelmin cf),
                        shifted_origin y0 sy (2 ^ cf_levelmin cf),
                        shifted_origin z0 sz (2 ^ cf_levelmin cf))"
proof -
  let ?rh0 = "after_shift cf (x0, y0, z0)"
  from new obtain x0ref where "region_origin cf = Inr x0ref"
    and bl: "build_levels (after_shift cf x0ref) = Inr rh"
    by (rule refinement_hierarchy_new_InrD)
  then have bl: "build_levels ?rh0 = Inr rh" using ro by simp
  have same: "same_settings ?rh0 rh" using bl by (rule build_levels_settings)
  have "rh_levelmin ?rh0 \<le> rh_levelmax ?rh0" "rh_levelmax ?rh0 < 32"
    using bl by (auto elim: build_levels_InrD)
  then have "cf_levelmin cf < 32" by (simp add: after_shift_levels)
  then have nc: "u32 (shl1 (cf_levelmin cf)) = 2 ^ cf_levelmin cf" by (rule shl1_u32)
  have xs: "rh_xshift ?rh0 = (sx, sy, sz)" "rh_x0ref rh = rh_x0ref ?rh0" "rh_cf rh = rh_cf ?rh0"
    using same sh by (simp_all add: same_settings_def)
  show "sx = shift_axis (cf_levelmin cf) (cf_levelmax cf) (cf_no_shift cf = Some True)
              (cf_force_shift cf = Some True) (2 ^ cf_levelmin cf) (region_center x0 lx)"
       "sy = shift_axis (cf_levelmin cf) (cf_levelmax cf) (cf_no_shift cf = Some True)
              (cf_force_shift cf = Some True) (2 ^ cf_levelmin cf) (region_center y0 ly)"
       "sz = shift_axis (cf_levelmin cf) (cf_levelmax cf) (cf_no_shift cf = Some True)
              (cf_force_shift cf = Some True) (2 ^ cf_levelmin cf) (region_center z0 lz)"
    using xs(1) unfolding after_shift_fields(1) [OF ext] nc by simp_all
  show "rh_x0ref rh = (shifted_origin x0 sx (2 ^ cf_levelmin cf),
                        shifted_origin y0 sy (2 ^ cf_levelmin cf),
                        shifted_origin z0 sz (2 ^ cf_levelmin cf))"
    unfolding xs(2) after_shift_fields(2) [OF ext] xs(1) nc by simp
  show "cf_shift_x (rh_cf rh) = Some sx \<and> cf_shift_y (rh_cf rh) = Some sy
       \<and> cf_shift_z (rh_cf rh) = Some sz"
    unfolding xs(3) after_shift_fields(4) [OF ext] xs(1) by simp
qed

text \<open>The shift of one axis and the shifted origin, written out.\<close>

lemma shift_axis_explicit:
  fixes n :: nat and x0 l :: real
  defines "t \<equiv> dbl (x0 + dbl (1 / 2 * l))"
  defines "c \<equiv> t - sgn t * real_of_int \<lfloor>\<bar>t\<bar>\<rfloor>"
  defines "v \<equiv> dbl (dbl (1 / 2 - c) * 2 ^ n)"
  shows "real_of_int (shift_axis lmin lmax bnoshift force_shift (2 ^ n) (region_center x0 l))
           = (if lmin \<noteq> lmax \<and> (\<not> bnoshift \<or> force_shift)
              then sgn v * real_of_int \<lfloor>\<bar>v\<bar>\<rfloor> else 0)"
  unfolding shift_axis_def region_center_def t_def c_def v_def
  by (simp add: fmod_one_sgn_floor c_int_sgn_floor)

section \<open>Example runs\<close>

lemma layout_example_levels:
  "cf_levelmin layout_example = 1" "cf_levelmax layout_example = 3"
  "cf_align_top layout_example = False" "cf_padding layout_example = 1"
  "cf_ref_offset layout_example = Some (7/8, 3/8, 3/8)" "cf_ref_center layout_example = None"
  "cf_ref_extent layout_example = (1/4, 1/4, 1/4)"
  "cf_no_shift layout_example = None" "cf_force_shift layout_example = None"
  by (simp_all add: layout_example_def)

lemma layout_example_origin: "region_origin layout_example = Inr (7/8, 3/8, 3/8)"
  unfolding region_origin_def layout_example_levels by simp

lemma fmod_one [simp]: "fmod 1 1 = 0"
  by (simp add: fmod_def c_int_def)

lemma c_int_quarter [simp]: "c_int (1 / 4) = 0" "c_int 1 = 1" "c_int 0 = 0"
  by (simp_all add: c_int_def)

lemma layout_example_shift:
  "rh_xshift (after_shift layout_example (7/8, 3/8, 3/8)) = (1, 0, 0)"
  "rh_x0ref (after_shift layout_example (7/8, 3/8, 3/8)) = (11/8, 3/8, 3/8)"
  "rh_lxref (after_shift layout_example (7/8, 3/8, 3/8)) = (1/4, 1/4, 1/4)"
proof -
  note e = layout_example_levels(7)
  have n: "u32 (shl1 1) = 2"
    by (simp add: shl1_def s32_def u32_def)
  have c: "region_center (7/8) (1/4) = 0" "region_center (3/8) (1/4) = 1/2"
    by (simp_all add: region_center_def fmod_def c_int_def)
  show 1: "rh_xshift (after_shift layout_example (7/8, 3/8, 3/8)) = (1, 0, 0)"
    unfolding after_shift_fields(1) [OF e] layout_example_levels n c
    by (simp add: shift_axis_def)
  show "rh_x0ref (after_shift layout_example (7/8, 3/8, 3/8)) = (11/8, 3/8, 3/8)"
    unfolding after_shift_fields(2) [OF e] 1 layout_example_levels n
    by (simp add: shifted_origin_def)
  show "rh_lxref (after_shift layout_example (7/8, 3/8, 3/8)) = (1/4, 1/4, 1/4)"
    by (rule after_shift_fields(3) [OF e])
qed

lemma layout_example_finest:
  "finest_box False (u32 (shl1 (3 - 1 + 1))) (shl1 3) (11/8, 3/8, 3/8) (1/4, 1/4, 1/4)
     = \<lparr> il = 2, jl = 2, kl = 2, ir = 6, jr = 6, kr = 6 \<rparr>"
proof -
  have a1: "shl1 3 = 8" by (simp add: shl1_def s32_def)
  have a2: "finest_lo 8 (11/8) = 11" "finest_hi 8 (11/8) (1/4) = 14" "finest_lo 8 (3/8) = 3"
    "finest_hi 8 (3/8) (1/4) = 6"
    by (simp_all add: finest_lo_def finest_hi_def c_int_def)
  have a3: "even_lo 11 = 10" "even_hi 14 = 14" "even_lo 3 = 2" "even_hi 6 = 6"
    by (simp_all add: even_lo_def even_hi_def signed_modulo_int_def)
  have a4: "wrap_axis 8 10 = 2" "wrap_axis 8 14 = 6" "wrap_axis 8 2 = 2" "wrap_axis 8 6 = 6"
    by (simp_all add: wrap_axis_def signed_modulo_int_def)
  show ?thesis
    unfolding a1 by (simp add: finest_box_def align_box_def wrap_box_def a2 a3 a4)
qed

lemma layout_example_coarser:
  "box_down False 1 1 3 \<lparr> il = 2, jl = 2, kl = 2, ir = 6, jr = 6, kr = 6 \<rparr> (Suc 0)
     = \<lparr> il = 0, jl = 0, kl = 0, ir = 4, jr = 4, kr = 4 \<rparr>"
proof -
  have a1: "coarser_lo (Suc 0) 2 = 0" "coarser_hi (Suc 0) 6 = 4"
    by (simp_all add: coarser_lo_def coarser_hi_def c_int_def)
  have a2: "even_lo 0 = 0" "even_hi 4 = 4"
    by (simp_all add: even_lo_def even_hi_def signed_modulo_int_def)
  show ?thesis
    by (simp add: align_box_def coarser_box_def a1 a2)
qed

lemma layout_example_success: "\<exists>rh. refinement_hierarchy_new layout_example = Inr rh"
proof -
  let ?rh0 = "after_shift layout_example (7/8, 3/8, 3/8)"
  let ?b = "\<lparr> il = 2, jl = 2, kl = 2, ir = 6, jr = 6, kr = (6::int) \<rparr>"
  have lv: "rh_levelmin ?rh0 = 1" "rh_levelmax ?rh0 = 3" "rh_align_top ?rh0 = False"
    "rh_padding ?rh0 = 1"
    by (simp_all add: after_shift_levels layout_example_levels)
  have b: "?b = finest_box (rh_align_top ?rh0) (u32 (shl1 (rh_levelmax ?rh0 - rh_levelmin ?rh0 + 1)))
           (shl1 (rh_levelmax ?rh0)) (rh_x0ref ?rh0) (rh_lxref ?rh0)"
    unfolding lv layout_example_shift using layout_example_finest by simp
  have nd: "\<forall>k. k = 0 \<or> k < rh_levelmax ?rh0 - rh_levelmin ?rh0 \<longrightarrow>
           \<not> degenerate (box_down (rh_align_top ?rh0) (rh_padding ?rh0) (rh_levelmin ?rh0)
                           (rh_levelmax ?rh0) ?b k)"
  proof (intro allI impI)
    fix k :: nat
    assume "k = 0 \<or> k < rh_levelmax ?rh0 - rh_levelmin ?rh0"
    then have "k = 0 \<or> k = Suc 0" unfolding lv by arith
    then show "\<not> degenerate (box_down (rh_align_top ?rh0) (rh_padding ?rh0) (rh_levelmin ?rh0)
                           (rh_levelmax ?rh0) ?b k)"
      unfolding lv
    proof
      assume "k = 0"
      then show "\<not> degenerate (box_down False 1 1 3 ?b k)" by (simp add: degenerate_def)
    next
      assume "k = Suc 0"
      then show "\<not> degenerate (box_down False 1 1 3 ?b k)"
        unfolding \<open>k = Suc 0\<close> layout_example_coarser by (simp add: degenerate_def)
    qed
  qed
  have "\<exists>rh. build_levels ?rh0 = Inr rh"
    by (rule build_levels_success [OF _ _ _ b nd]) (simp_all add: lv)
  moreover have "refinement_hierarchy_new layout_example = build_levels ?rh0"
    by (rule refinement_hierarchy_new_unfold)
       (simp_all add: layout_example_levels layout_example_origin)
  ultimately show ?thesis by simp
qed

text \<open>
  A run in which the arithmetic rounds: the extent 0.3 is read as the nearest binary64
  number, and the centre of the region on the x axis comes out just above \<open>1/4\<close>, so that
  the x shift is 0. On the y axis the product is \<open>- 3/4\<close> and the shift 0; on the z axis the
  product is \<open>- 3/2\<close> and the shift \<open>- 1\<close>.
\<close>

lemma shift_example_levels:
  "cf_levelmin shift_example = 2" "cf_levelmax shift_example = 4"
  "cf_align_top shift_example = False" "cf_padding shift_example = 1"
  "cf_ref_offset shift_example = None" "cf_ref_center shift_example = Some (1/4, 11/16, 7/8)"
  "cf_ref_extent shift_example = (5404319552844595 / 18014398509481984, 1/4, 1/4)"
  "cf_no_shift shift_example = None" "cf_force_shift shift_example = None"
  by (simp_all add: shift_example_def)

lemma half_extent_example: "dbl (0.5 * (5404319552844595 / 18014398509481984)) = 5404319552844595 / 36028797018963968"
  by (rule dbl_exact_value [where k = 55 and n = 5404319552844595]) simp_all

lemma shift_example_origin_x: "origin_of_center (1/4) (5404319552844595 / 18014398509481984) = 225179981368525 / 2251799813685248"
proof -
  have 2: "dbl (1/4 - 5404319552844595 / 36028797018963968) = 3602879701896397 / 36028797018963968"
    by (rule dbl_exact_value [where k = 55 and n = 3602879701896397]) simp_all
  have 3: "dbl (3602879701896397 / 36028797018963968 + 1.0) = 2476979795053773 / 2251799813685248"
    by (rule dbl_rounded_value [where k = 52 and n = 4953959590107546
          and z = "39631676720860365 / 36028797018963968"])
       (simp_all add: nearest_even_def)
  have 4: "fmod (2476979795053773 / 2251799813685248) 1.0 = 225179981368525 / 2251799813685248"
    by (simp add: fmod_def c_int_def)
  show ?thesis
    unfolding origin_of_center_def half_extent_example 2 3 4 ..
qed

lemma shift_example_origin:
  "region_origin shift_example = Inr (225179981368525 / 2251799813685248, 9/16, 3/4)"
proof -
  have "origin_of_center (11/16) (1/4) = 9/16" "origin_of_center (7/8) (1/4) = 3/4"
    by (simp_all add: origin_of_center_def fmod_def c_int_def)
  then show ?thesis
    unfolding region_origin_def shift_example_levels by (simp add: shift_example_origin_x)
qed

lemma shift_example_center_x: "region_center (225179981368525 / 2251799813685248) (5404319552844595 / 18014398509481984) = 2251799813685249 / 9007199254740992"
proof -
  have 2: "dbl (225179981368525 / 2251799813685248 + 5404319552844595 / 36028797018963968) = 2251799813685249 / 9007199254740992"
    by (rule dbl_rounded_value [where k = 54 and n = 4503599627370498
          and z = "9007199254740995 / 36028797018963968"])
       (simp_all add: nearest_even_def)
  have 3: "fmod (2251799813685249 / 9007199254740992) 1.0 = 2251799813685249 / 9007199254740992"
    by (simp add: fmod_def c_int_def)
  show ?thesis
    unfolding region_center_def half_extent_example 2 3 ..
qed

lemma shift_example_shift_x: "shift_axis 2 4 False False 4 (2251799813685249 / 9007199254740992) = 0"
proof -
  have 1: "dbl (0.5 - 2251799813685249 / 9007199254740992) = 2251799813685247 / 9007199254740992"
    by (rule dbl_exact_value [where k = 53 and n = 2251799813685247]) simp_all
  have 2: "dbl (2251799813685247 / 9007199254740992 * real_of_int 4) = 2251799813685247 / 2251799813685248"
    by (rule dbl_exact_value [where k = 51 and n = 2251799813685247]) simp_all
  have 3: "c_int (2251799813685247 / 2251799813685248) = 0"
    by (simp add: c_int_def)
  have "(2::nat) \<noteq> 4 \<and> (\<not> False \<or> False)" by simp
  then show ?thesis
    unfolding shift_axis_def 1 2 3 by (rule if_P)
qed

lemma shift_example_shift:
  "rh_xshift (after_shift shift_example (225179981368525 / 2251799813685248, 9/16, 3/4)) = (0, 0, - 1)"
  "rh_x0ref (after_shift shift_example (225179981368525 / 2251799813685248, 9/16, 3/4)) = (225179981368525 / 2251799813685248, 9/16, 1/2)"
  "rh_lxref (after_shift shift_example (225179981368525 / 2251799813685248, 9/16, 3/4)) = (5404319552844595 / 18014398509481984, 1/4, 1/4)"
proof -
  note e = shift_example_levels(7)
  have n: "u32 (shl1 2) = 4"
    by (simp add: shl1_def s32_def u32_def)
  have c: "region_center (9/16) (1/4) = 11/16" "region_center (3/4) (1/4) = 7/8"
    by (simp_all add: region_center_def fmod_def c_int_def)
  have s: "shift_axis 2 4 False False 4 (11/16) = 0" "shift_axis 2 4 False False 4 (7/8) = - 1"
    by (simp_all add: shift_axis_def c_int_def)
  show 1: "rh_xshift (after_shift shift_example (225179981368525 / 2251799813685248, 9/16, 3/4)) = (0, 0, - 1)"
    unfolding after_shift_fields(1) [OF e] shift_example_levels n c shift_example_center_x
    by (simp add: s shift_example_shift_x)
  have o: "shifted_origin (225179981368525 / 2251799813685248) 0 4 = 225179981368525 / 2251799813685248"
  proof -
    have "dbl (225179981368525 / 2251799813685248) = 225179981368525 / 2251799813685248"
      by (rule dbl_exact_value [where k = 51 and n = 225179981368525]) simp_all
    then show ?thesis by (simp add: shifted_origin_def)
  qed
  have o': "shifted_origin (9/16) 0 4 = 9/16" "shifted_origin (3/4) (- 1) 4 = 1/2"
    by (simp_all add: shifted_origin_def)
  show "rh_x0ref (after_shift shift_example (225179981368525 / 2251799813685248, 9/16, 3/4)) = (225179981368525 / 2251799813685248, 9/16, 1/2)"
    unfolding after_shift_fields(2) [OF e] 1 shift_example_levels n
    by (simp add: o o')
  show "rh_lxref (after_shift shift_example (225179981368525 / 2251799813685248, 9/16, 3/4)) = (5404319552844595 / 18014398509481984, 1/4, 1/4)"
    by (rule after_shift_fields(3) [OF e])
qed

lemma shift_example_finest_x:
  "finest_lo 16 (225179981368525 / 2251799813685248) = 1" "finest_hi 16 (225179981368525 / 2251799813685248) (5404319552844595 / 18014398509481984) = 7"
proof -
  have 1: "dbl (225179981368525 / 2251799813685248 * real_of_int 16) = 225179981368525 / 140737488355328"
    by (rule dbl_exact_value [where k = 47 and n = 225179981368525]) simp_all
  have 2: "c_int (225179981368525 / 140737488355328) = 1"
    by (simp add: c_int_def)
  show "finest_lo 16 (225179981368525 / 2251799813685248) = 1"
    unfolding finest_lo_def 1 2 ..
  have 3: "dbl (225179981368525 / 2251799813685248 + 5404319552844595 / 18014398509481984) = 7205759403792795 / 18014398509481984"
    by (rule dbl_exact_value [where k = 54 and n = 7205759403792795]) simp_all
  have 4: "dbl (7205759403792795 / 18014398509481984 * real_of_int 16) = 7205759403792795 / 1125899906842624"
    by (rule dbl_exact_value [where k = 50 and n = 7205759403792795]) simp_all
  have 5: "dbl (7205759403792795 / 1125899906842624 + 1.0) = 8331659310635419 / 1125899906842624"
    by (rule dbl_exact_value [where k = 50 and n = 8331659310635419]) simp_all
  have 6: "c_int (8331659310635419 / 1125899906842624) = 7"
    by (simp add: c_int_def)
  show "finest_hi 16 (225179981368525 / 2251799813685248) (5404319552844595 / 18014398509481984) = 7"
    unfolding finest_hi_def 3 4 5 6 ..
qed

lemma shift_example_finest:
  "finest_box False (u32 (shl1 (4 - 2 + 1))) (shl1 4) (225179981368525 / 2251799813685248, 9/16, 1/2) (5404319552844595 / 18014398509481984, 1/4, 1/4)
     = \<lparr> il = 0, jl = 8, kl = 8, ir = 8, jr = 14, kr = 14 \<rparr>"
proof -
  have a1: "shl1 4 = 16" by (simp add: shl1_def s32_def)
  have a2: "finest_lo 16 (9/16) = 9" "finest_hi 16 (9/16) (1/4) = 14" "finest_lo 16 (1/2) = 8"
    "finest_hi 16 (1/2) (1/4) = 13"
    by (simp_all add: finest_lo_def finest_hi_def c_int_def)
  have a3: "even_lo 1 = 0" "even_hi 7 = 8" "even_lo 9 = 8" "even_hi 14 = 14" "even_lo 8 = 8"
    "even_hi 13 = 14"
    by (simp_all add: even_lo_def even_hi_def signed_modulo_int_def)
  have a4: "wrap_axis 16 0 = 0" "wrap_axis 16 8 = 8" "wrap_axis 16 14 = 14"
    by (simp_all add: wrap_axis_def signed_modulo_int_def)
  show ?thesis
    unfolding a1
    by (simp add: finest_box_def align_box_def wrap_box_def a2 a3 a4 shift_example_finest_x)
qed

lemma shift_example_coarser:
  "box_down False 1 2 4 \<lparr> il = 0, jl = 8, kl = 8, ir = 8, jr = 14, kr = 14 \<rparr> (Suc 0)
     = \<lparr> il = 0, jl = 2, kl = 2, ir = 6, jr = 8, kr = 8 \<rparr>"
proof -
  have a1: "coarser_lo (Suc 0) 0 = - 1" "coarser_hi (Suc 0) 8 = 5" "coarser_lo (Suc 0) 8 = 3"
    "coarser_hi (Suc 0) 14 = 8"
    by (simp_all add: coarser_lo_def coarser_hi_def c_int_def ceiling_def)
  have a2: "even_lo (- 1) = 0" "even_hi 5 = 6" "even_lo 3 = 2" "even_hi 8 = 8"
    by (simp_all add: even_lo_def even_hi_def signed_modulo_int_def)
  show ?thesis
    by (simp add: align_box_def coarser_box_def a1 a2)
qed

lemma shift_example_success: "\<exists>rh. refinement_hierarchy_new shift_example = Inr rh"
proof -
  let ?rh0 = "after_shift shift_example (225179981368525 / 2251799813685248, 9/16, 3/4)"
  let ?b = "\<lparr> il = 0, jl = 8, kl = 8, ir = 8, jr = 14, kr = (14::int) \<rparr>"
  have lv: "rh_levelmin ?rh0 = 2" "rh_levelmax ?rh0 = 4" "rh_align_top ?rh0 = False"
    "rh_padding ?rh0 = 1"
    by (simp_all add: after_shift_levels shift_example_levels)
  have b: "?b = finest_box (rh_align_top ?rh0) (u32 (shl1 (rh_levelmax ?rh0 - rh_levelmin ?rh0 + 1)))
           (shl1 (rh_levelmax ?rh0)) (rh_x0ref ?rh0) (rh_lxref ?rh0)"
    unfolding lv shift_example_shift using shift_example_finest by simp
  have nd: "\<forall>k. k = 0 \<or> k < rh_levelmax ?rh0 - rh_levelmin ?rh0 \<longrightarrow>
           \<not> degenerate (box_down (rh_align_top ?rh0) (rh_padding ?rh0) (rh_levelmin ?rh0)
                           (rh_levelmax ?rh0) ?b k)"
  proof (intro allI impI)
    fix k :: nat
    assume "k = 0 \<or> k < rh_levelmax ?rh0 - rh_levelmin ?rh0"
    then have "k = 0 \<or> k = Suc 0" unfolding lv by arith
    then show "\<not> degenerate (box_down (rh_align_top ?rh0) (rh_padding ?rh0) (rh_levelmin ?rh0)
                           (rh_levelmax ?rh0) ?b k)"
      unfolding lv
    proof
      assume "k = 0"
      then show "\<not> degenerate (box_down False 1 2 4 ?b k)" by (simp add: degenerate_def)
    next
      assume "k = Suc 0"
      then show "\<not> degenerate (box_down False 1 2 4 ?b k)"
        unfolding \<open>k = Suc 0\<close> shift_example_coarser by (simp add: degenerate_def)
    qed
  qed
  have "\<exists>rh. build_levels ?rh0 = Inr rh"
    by (rule build_levels_success [OF _ _ _ b nd]) (simp_all add: lv)
  moreover have "refinement_hierarchy_new shift_example = build_levels ?rh0"
    by (rule refinement_hierarchy_new_unfold)
       (simp_all add: shift_example_levels shift_example_origin)
  ultimately show ?thesis by simp
qed

section \<open>The layout: claims about the shift, the bounding box and the alignment\<close>

text \<open>
  C5, as amended. Let the constructor succeed. Write \<open>t\<close> for the rounded sum
  \<open>origin + extent / 2\<close> of an axis, \<open>c = t - sgn t * \<lfloor>\<bar>t\<bar>\<rfloor>\<close> for the centre of the region on
  that axis, and \<open>v\<close> for the rounded product of the rounded difference \<open>1/2 - c\<close> with
  \<open>2 ^ levelmin\<close>, all in binary64 arithmetic. When \<open>levelmin\<close> differs from \<open>levelmax\<close> and
  shifting is not suppressed or is forced, the shift of the axis is \<open>v\<close> truncated towards
  zero, \<open>sgn v * \<lfloor>\<bar>v\<bar>\<rfloor>\<close>; otherwise it is zero. The shift is recorded in the object and in
  the configuration, and the origin of the region becomes the rounded sum of the origin and
  \<open>shift / 2 ^ levelmin\<close>, which is not reduced modulo 1.
\<close>

theorem shift_spec:
  assumes "refinement_hierarchy_new cf = Inr rh"
    and "region_origin cf = Inr (x0, y0, z0)"
    and "cf_ref_extent cf = (lx, ly, lz)"
    and "rh_xshift rh = (sx, sy, sz)"
  shows "let shifting = (cf_levelmin cf \<noteq> cf_levelmax cf
                          \<and> (cf_no_shift cf \<noteq> Some True \<or> cf_force_shift cf = Some True));
             n = 2 ^ cf_levelmin cf;
             tx = dbl (x0 + dbl (1 / 2 * lx));
             ty = dbl (y0 + dbl (1 / 2 * ly));
             tz = dbl (z0 + dbl (1 / 2 * lz));
             cx = tx - sgn tx * real_of_int \<lfloor>\<bar>tx\<bar>\<rfloor>;
             cy = ty - sgn ty * real_of_int \<lfloor>\<bar>ty\<bar>\<rfloor>;
             cz = tz - sgn tz * real_of_int \<lfloor>\<bar>tz\<bar>\<rfloor>;
             vx = dbl (dbl (1 / 2 - cx) * n);
             vy = dbl (dbl (1 / 2 - cy) * n);
             vz = dbl (dbl (1 / 2 - cz) * n)
         in real_of_int sx = (if shifting then sgn vx * real_of_int \<lfloor>\<bar>vx\<bar>\<rfloor> else 0)
          \<and> real_of_int sy = (if shifting then sgn vy * real_of_int \<lfloor>\<bar>vy\<bar>\<rfloor> else 0)
          \<and> real_of_int sz = (if shifting then sgn vz * real_of_int \<lfloor>\<bar>vz\<bar>\<rfloor> else 0)
          \<and> cf_shift_x (rh_cf rh) = Some sx \<and> cf_shift_y (rh_cf rh) = Some sy
          \<and> cf_shift_z (rh_cf rh) = Some sz
          \<and> rh_x0ref rh = (dbl (x0 + dbl (real_of_int sx / n)),
                           dbl (y0 + dbl (real_of_int sy / n)),
                           dbl (z0 + dbl (real_of_int sz / n)))"
proof -
  note ls = layout_shift [OF assms]
  show ?thesis
    unfolding Let_def
    apply (intro conjI)
    subgoal unfolding ls(1) shift_axis_explicit by simp
    subgoal unfolding ls(2) shift_axis_explicit by simp
    subgoal unfolding ls(3) shift_axis_explicit by simp
    subgoal using ls(4) by simp
    subgoal using ls(4) by simp
    subgoal using ls(4) by simp
    subgoal unfolding ls(5) shifted_origin_def by simp
    done
qed

lemma layout_example_result:
  "map_sum (\<lambda>e. e) (\<lambda>rh. (rh_xshift rh, rh_x0ref rh)) (refinement_hierarchy_new layout_example)
     = Inr ((1, 0, 0), (11 / 8, 3 / 8, 3 / 8))"
proof -
  let ?rh0 = "after_shift layout_example (7/8, 3/8, 3/8)"
  obtain rh where rh: "refinement_hierarchy_new layout_example = Inr rh"
    using layout_example_success by blast
  then obtain x0ref where "region_origin layout_example = Inr x0ref"
    and "build_levels (after_shift layout_example x0ref) = Inr rh"
    by (rule refinement_hierarchy_new_InrD)
  then have "build_levels ?rh0 = Inr rh"
    using layout_example_origin by simp
  then have "same_settings ?rh0 rh" by (rule build_levels_settings)
  then have "rh_xshift rh = (1, 0, 0)" "rh_x0ref rh = (11 / 8, 3 / 8, 3 / 8)"
    using layout_example_shift by (simp_all add: same_settings_def)
  then show ?thesis unfolding rh by simp
qed

lemma shift_example_result:
  "map_sum (\<lambda>e. e) (\<lambda>rh. (rh_xshift rh, rh_x0ref rh)) (refinement_hierarchy_new shift_example)
     = Inr ((0, 0, - 1), (225179981368525 / 2251799813685248, 9 / 16, 1 / 2))"
proof -
  let ?rh0 = "after_shift shift_example (225179981368525 / 2251799813685248, 9 / 16, 3 / 4)"
  obtain rh where rh: "refinement_hierarchy_new shift_example = Inr rh"
    using shift_example_success by blast
  then obtain x0ref where "region_origin shift_example = Inr x0ref"
    and "build_levels (after_shift shift_example x0ref) = Inr rh"
    by (rule refinement_hierarchy_new_InrD)
  then have "build_levels ?rh0 = Inr rh"
    using shift_example_origin by simp
  then have "same_settings ?rh0 rh" by (rule build_levels_settings)
  then have "rh_xshift rh = (0, 0, - 1)"
    "rh_x0ref rh = (225179981368525 / 2251799813685248, 9 / 16, 1 / 2)"
    using shift_example_shift by (simp_all add: same_settings_def)
  then show ?thesis unfolding rh by simp
qed

theorem shift_spec_witness:
  "map_sum (\<lambda>e. e)
     (\<lambda>rh. (rh_xshift rh, cf_shift_x (rh_cf rh), cf_shift_y (rh_cf rh), cf_shift_z (rh_cf rh),
            rh_x0ref rh))
     (refinement_hierarchy_new layout_example)
     = Inr ((1, 0, 0), Some 1, Some 0, Some 0, (11 / 8, 3 / 8, 3 / 8))
   \<and> map_sum (\<lambda>e. e)
     (\<lambda>rh. (rh_xshift rh, cf_shift_x (rh_cf rh), cf_shift_y (rh_cf rh), cf_shift_z (rh_cf rh),
            rh_x0ref rh))
     (refinement_hierarchy_new shift_example)
     = Inr ((0, 0, - 1), Some 0, Some 0, Some (- 1),
            (225179981368525 / 2251799813685248, 9 / 16, 1 / 2))"
proof -
  obtain rh where rh: "refinement_hierarchy_new layout_example = Inr rh"
    using layout_example_success by blast
  have r: "rh_xshift rh = (1, 0, 0)" "rh_x0ref rh = (11 / 8, 3 / 8, 3 / 8)"
    using layout_example_result unfolding rh by simp_all
  have c: "cf_shift_x (rh_cf rh) = Some 1 \<and> cf_shift_y (rh_cf rh) = Some 0
      \<and> cf_shift_z (rh_cf rh) = Some 0"
    using shift_spec [OF rh layout_example_origin layout_example_levels(7) r(1)]
    unfolding Let_def by blast
  obtain rh' where rh': "refinement_hierarchy_new shift_example = Inr rh'"
    using shift_example_success by blast
  have r': "rh_xshift rh' = (0, 0, - 1)"
    "rh_x0ref rh' = (225179981368525 / 2251799813685248, 9 / 16, 1 / 2)"
    using shift_example_result unfolding rh' by simp_all
  have c': "cf_shift_x (rh_cf rh') = Some 0 \<and> cf_shift_y (rh_cf rh') = Some 0
      \<and> cf_shift_z (rh_cf rh') = Some (- 1)"
    using shift_spec [OF rh' shift_example_origin shift_example_levels(7) r'(1)]
    unfolding Let_def by blast
  show ?thesis unfolding rh rh' using r c r' c' by simp
qed

text \<open>
  C5 as stated fails: for the region with origin \<open>(7/8, 3/8, 3/8)\<close> and extent \<open>1/4\<close>, levels
  1 to 3, the x shift is 1 and the origin of the region after the shift is \<open>11/8\<close>, which is
  not below 1. All numbers of this run have few significant bits, so no operation rounds.
\<close>

theorem shift_origin_counterexample:
  "map_sum id rh_x0ref
     (refinement_hierarchy_new
        \<lparr> cf_levelmin = 1, cf_levelmax = 3, cf_levelmin_TF = None, cf_padding = 1,
          cf_align_top = False, cf_no_shift = None, cf_force_shift = None,
          cf_ref_extent = (1/4, 1/4, 1/4),
          cf_ref_offset = Some (7/8, 3/8, 3/8), cf_ref_center = None,
          cf_shift_x = None, cf_shift_y = None, cf_shift_z = None \<rparr>)
     = Inr (11 / 8, 3 / 8, 3 / 8)"
proof -
  obtain rh where rh: "refinement_hierarchy_new layout_example = Inr rh"
    using layout_example_success by blast
  have "rh_x0ref rh = (11 / 8, 3 / 8, 3 / 8)"
    using layout_example_result unfolding rh by simp
  then show ?thesis
    using rh unfolding layout_example_def by simp
qed

text \<open>
  C2. Take any configuration that passes the earlier checks of the constructor (not both
  \<open>ref_offset\<close> and \<open>ref_center\<close>, a region, \<open>levelmin \<le> levelmax < 31\<close>). Let \<open>b\<close> be the
  bounding box on the finest grid after alignment and wrapping, and \<open>box_down \<dots> b k\<close> the box
  \<open>k\<close> levels below. If the box of the finest level (\<open>k = 0\<close>) or of one of the coarser
  levels above \<open>levelmin\<close> has \<open>lo \<ge> hi\<close> on some axis, the constructor ends with the bounding
  box error and yields no layout.
\<close>

theorem degenerate_box_is_fatal:
  assumes "\<not> (cf_ref_offset cf \<noteq> None \<and> cf_ref_center cf \<noteq> None)"
    and "region_origin cf = Inr x0ref"
    and "cf_levelmin cf \<le> cf_levelmax cf" and "cf_levelmax cf < 31"
    and "b = finest_box (cf_align_top cf) (u32 (shl1 (cf_levelmax cf - cf_levelmin cf + 1)))
               (shl1 (cf_levelmax cf)) (rh_x0ref (after_shift cf x0ref)) (cf_ref_extent cf)"
    and "k = 0 \<or> k < cf_levelmax cf - cf_levelmin cf"
    and "degenerate (box_down (cf_align_top cf) (cf_padding cf) (cf_levelmin cf) (cf_levelmax cf) b k)"
  shows "\<exists>a1 a2 a3 a4 a5 a6. refinement_hierarchy_new cf = Inl (BoundingBoxError a1 a2 a3 a4 a5 a6)"
proof -
  let ?rh0 = "after_shift cf x0ref"
  have lx: "rh_lxref ?rh0 = cf_ref_extent cf"
    by (cases x0ref; cases "cf_ref_extent cf") (simp add: after_shift_fields(3))
  have "refinement_hierarchy_new cf = build_levels ?rh0"
    by (rule refinement_hierarchy_new_unfold) (use assms(1-4) in simp_all)
  moreover have "\<exists>a1 a2 a3 a4 a5 a6. build_levels ?rh0 = Inl (BoundingBoxError a1 a2 a3 a4 a5 a6)"
    by (rule build_levels_fail [where k = k and b = b])
       (use assms(3-7) in \<open>simp_all add: after_shift_levels lx del: box_down.simps\<close>)
  ultimately show ?thesis by simp
qed

lemma degenerate_example_levels:
  "cf_levelmin degenerate_example = 1" "cf_levelmax degenerate_example = 2"
  "cf_align_top degenerate_example = False" "cf_padding degenerate_example = 1"
  "cf_ref_offset degenerate_example = Some (3/4, 1/4, 1/4)" "cf_ref_center degenerate_example = None"
  "cf_ref_extent degenerate_example = (1/2, 1/4, 1/4)"
  "cf_no_shift degenerate_example = None" "cf_force_shift degenerate_example = None"
  by (simp_all add: degenerate_example_def)

lemma degenerate_example_origin: "region_origin degenerate_example = Inr (3/4, 1/4, 1/4)"
  unfolding region_origin_def degenerate_example_levels by simp

lemma degenerate_example_shift:
  "rh_x0ref (after_shift degenerate_example (3/4, 1/4, 1/4)) = (5/4, 1/4, 1/4)"
proof -
  note e = degenerate_example_levels(7)
  have n: "u32 (shl1 1) = 2"
    by (simp add: shl1_def s32_def u32_def)
  have c: "region_center (3/4) (1/2) = 0" "region_center (1/4) (1/4) = 3/8"
    by (simp_all add: region_center_def fmod_def c_int_def)
  have 1: "rh_xshift (after_shift degenerate_example (3/4, 1/4, 1/4)) = (1, 0, 0)"
    unfolding after_shift_fields(1) [OF e] degenerate_example_levels n c
    by (simp add: shift_axis_def)
  show ?thesis
    unfolding after_shift_fields(2) [OF e] 1 degenerate_example_levels n
    by (simp add: shifted_origin_def)
qed

lemma degenerate_example_finest:
  "finest_box False (u32 (shl1 (2 - 1 + 1))) (shl1 2) (5/4, 1/4, 1/4) (1/2, 1/4, 1/4)
     = \<lparr> il = 0, jl = 0, kl = 0, ir = 0, jr = 0, kr = 0 \<rparr>"
proof -
  have a1: "shl1 2 = 4" by (simp add: shl1_def s32_def)
  have a2: "finest_lo 4 (5/4) = 5" "finest_hi 4 (5/4) (1/2) = 8" "finest_lo 4 (1/4) = 1"
    "finest_hi 4 (1/4) (1/4) = 3"
    by (simp_all add: finest_lo_def finest_hi_def c_int_def)
  have a3: "even_lo 5 = 4" "even_hi 8 = 8" "even_lo 1 = 0" "even_hi 3 = 4"
    by (simp_all add: even_lo_def even_hi_def signed_modulo_int_def)
  have a4: "wrap_axis 4 4 = 0" "wrap_axis 4 8 = 0" "wrap_axis 4 0 = 0"
    by (simp_all add: wrap_axis_def signed_modulo_int_def)
  show ?thesis
    unfolding a1 by (simp add: finest_box_def align_box_def wrap_box_def a2 a3 a4)
qed

theorem degenerate_box_is_fatal_witness:
  "\<exists>a1 a2 a3 a4 a5 a6.
     refinement_hierarchy_new degenerate_example = Inl (BoundingBoxError a1 a2 a3 a4 a5 a6)"
proof (rule degenerate_box_is_fatal [where k = 0 and x0ref = "(3/4, 1/4, 1/4)"
        and b = "\<lparr> il = 0, jl = 0, kl = 0, ir = 0, jr = 0, kr = 0 \<rparr>"])
  show "\<lparr> il = 0, jl = 0, kl = 0, ir = 0, jr = 0, kr = 0 \<rparr> =
    finest_box (cf_align_top degenerate_example)
      (u32 (shl1 (cf_levelmax degenerate_example - cf_levelmin degenerate_example + 1)))
      (shl1 (cf_levelmax degenerate_example))
      (rh_x0ref (after_shift degenerate_example (3/4, 1/4, 1/4)))
      (cf_ref_extent degenerate_example)"
    unfolding degenerate_example_levels degenerate_example_shift
    using degenerate_example_finest by simp
qed (simp_all add: degenerate_example_levels degenerate_example_origin degenerate_def)

section \<open>Alignment with the coarser grid\<close>














end
